theory Spec2Isabelle
  imports Complex_Main
begin

section \<open>JavaScript values\<close>

text \<open>
  The form builder is TypeScript. Answer values are typed \<open>any\<close>, so the validation
  code inspects them with JavaScript's dynamic operators (\<open>!value\<close>, \<open>typeof\<close>,
  \<open>Array.isArray\<close>, \<open>instanceof\<close>, \<open>Number(value)\<close>). The model therefore starts with a
  datatype of the JavaScript values that can reach the form code.

  Numbers are IEEE doubles in JavaScript. The model keeps the special values \<open>NaN\<close> and
  the two infinities and represents every other number by an exact rational, so rounding
  is not modelled; \<open>+0\<close> and \<open>-0\<close> are both \<open>Fin 0\<close> (the code never tells them apart).
  Strings are lists of 8-bit characters, one per UTF-16 code unit below 256.
\<close>

datatype jsnum = NaN | Fin rat | PosInf | NegInf

fun num_lt :: "jsnum \<Rightarrow> jsnum \<Rightarrow> bool" where
  "num_lt NaN _ = False"
| "num_lt _ NaN = False"
| "num_lt (Fin a) (Fin b) = (a < b)"
| "num_lt (Fin _) PosInf = True"
| "num_lt NegInf (Fin _) = True"
| "num_lt NegInf PosInf = True"
| "num_lt _ _ = False"

definition num_gt :: "jsnum \<Rightarrow> jsnum \<Rightarrow> bool" where
  "num_gt a b = num_lt b a"

text \<open>Truthiness of a number: \<open>0\<close> and \<open>NaN\<close> are falsy.\<close>

definition num_truthy :: "jsnum \<Rightarrow> bool" where
  "num_truthy n = (n \<noteq> NaN \<and> n \<noteq> Fin 0)"

datatype JsValue =
    JUndefined
  | JNull
  | JBool bool
  | JNum jsnum
  | JStr string
  | JArr "JsValue list"
  | JDate jsnum                      \<comment> \<open>a \<open>Date\<close> object and its time value\<close>
  | JFile string nat                 \<comment> \<open>a \<open>File\<close>: its \<open>name\<close> and \<open>size\<close>\<close>
  | JFileList "(string \<times> nat) list"    \<comment> \<open>a \<open>FileList\<close> of files\<close>
  | JObject                          \<comment> \<open>any other object\<close>

text \<open>\<open>!!value\<close>\<close>

fun truthy :: "JsValue \<Rightarrow> bool" where
  "truthy JUndefined = False"
| "truthy JNull = False"
| "truthy (JBool b) = b"
| "truthy (JNum n) = num_truthy n"
| "truthy (JStr s) = (s \<noteq> [])"
| "truthy _ = True"

text \<open>\<open>Array.isArray(value)\<close>\<close>

fun isArray :: "JsValue \<Rightarrow> bool" where
  "isArray (JArr _) = True"
| "isArray _ = False"

subsection \<open>Strings\<close>

text \<open>
  \<open>String.prototype.trim\<close> removes white space and line terminators from both ends;
  among the code units below 256 these are TAB, LF, VT, FF, CR, SP and NBSP.
\<close>

definition js_whitespace :: "char \<Rightarrow> bool" where
  "js_whitespace c =
     (c = CHR 0x09 \<or> c = CHR 0x0A \<or> c = CHR 0x0B \<or> c = CHR 0x0C \<or> c = CHR 0x0D
      \<or> c = CHR 0x20 \<or> c = CHR 0xA0)"

definition trim :: "string \<Rightarrow> string" where
  "trim s = rev (dropWhile js_whitespace (rev (dropWhile js_whitespace s)))"

text \<open>\<open>xs.join(sep)\<close> on an array of strings.\<close>

fun join :: "string \<Rightarrow> string list \<Rightarrow> string" where
  "join sep [] = []"
| "join sep [x] = x"
| "join sep (x # y # ys) = x @ sep @ join sep (y # ys)"

text \<open>\<open>s.split(".").pop()\<close>: the part of \<open>s\<close> after its last dot (all of \<open>s\<close> without one).\<close>

definition last_segment :: "string \<Rightarrow> string" where
  "last_segment s = rev (takeWhile (\<lambda>c. c \<noteq> CHR ''.'') (rev s))"

text \<open>\<open>toLowerCase\<close>, on the letters A to Z.\<close>

definition lower_char :: "char \<Rightarrow> char" where
  "lower_char c =
     (let n = (of_char c :: nat) in if 65 \<le> n \<and> n \<le> 90 then char_of (n + 32) else c)"

definition toLowerCase :: "string \<Rightarrow> string" where
  "toLowerCase s = map lower_char s"

text \<open>\<open>s.startsWith(p)\<close>\<close>

definition startsWith :: "string \<Rightarrow> string \<Rightarrow> bool" where
  "startsWith s p = (take (length p) s = p)"

subsection \<open>\<open>Number(string)\<close>\<close>

text \<open>
  The conversion of a string to a number, after the language's grammar of string numeric
  literals: surrounding white space is ignored, the empty string is 0, a decimal literal
  may carry a sign, a fraction and an exponent, \<open>Infinity\<close> may carry a sign, and
  \<open>0x\<close>, \<open>0o\<close>, \<open>0b\<close> introduce unsigned hexadecimal, octal and binary integers.
  Anything else is \<open>NaN\<close>.
\<close>

definition digit_val :: "char \<Rightarrow> nat option" where
  "digit_val c =
     (let n = (of_char c :: nat) in
      if 48 \<le> n \<and> n \<le> 57 then Some (n - 48)
      else if 97 \<le> n \<and> n \<le> 102 then Some (n - 87)
      else if 65 \<le> n \<and> n \<le> 70 then Some (n - 55)
      else None)"

definition is_digit :: "nat \<Rightarrow> char \<Rightarrow> bool" where
  "is_digit base c = (case digit_val c of None \<Rightarrow> False | Some d \<Rightarrow> d < base)"

definition digits_val :: "nat \<Rightarrow> string \<Rightarrow> nat" where
  "digits_val base ds = foldl (\<lambda>acc c. acc * base + (case digit_val c of None \<Rightarrow> 0 | Some d \<Rightarrow> d)) 0 ds"

definition radix_literal :: "nat \<Rightarrow> string \<Rightarrow> jsnum" where
  "radix_literal base ds =
     (if ds \<noteq> [] \<and> list_all (is_digit base) ds then Fin (of_nat (digits_val base ds)) else NaN)"

definition pow10 :: "int \<Rightarrow> rat" where
  "pow10 e = (if 0 \<le> e then 10 ^ nat e else 1 / 10 ^ nat (- e))"

text \<open>An optional sign: the sign as a factor and the rest of the string.\<close>

fun take_sign :: "string \<Rightarrow> int \<times> string" where
  "take_sign [] = (1, [])"
| "take_sign (c # cs) =
     (if c = CHR ''+'' then (1, cs) else if c = CHR ''-'' then (-1, cs) else (1, c # cs))"

text \<open>The exponent part, when the literal has one: \<open>None\<close> when it is malformed.\<close>

definition exponent_part :: "string \<Rightarrow> int option" where
  "exponent_part r =
     (case r of
        [] \<Rightarrow> Some 0
      | c # cs \<Rightarrow>
          if c = CHR ''e'' \<or> c = CHR ''E'' then
            (let (sg, ds) = take_sign cs in
             if ds \<noteq> [] \<and> list_all (is_digit 10) ds then Some (sg * int (digits_val 10 ds))
             else None)
          else None)"

definition unsigned_decimal :: "string \<Rightarrow> rat option" where
  "unsigned_decimal s =
     (let ip = takeWhile (is_digit 10) s;
          r1 = dropWhile (is_digit 10) s;
          fp = (case r1 of [] \<Rightarrow> [] | c # cs \<Rightarrow> if c = CHR ''.'' then takeWhile (is_digit 10) cs else []);
          r2 = (case r1 of [] \<Rightarrow> [] | c # cs \<Rightarrow> if c = CHR ''.'' then dropWhile (is_digit 10) cs else r1)
      in if ip = [] \<and> fp = [] then None
         else (case exponent_part r2 of
                 None \<Rightarrow> None
               | Some e \<Rightarrow>
                   Some (of_nat (digits_val 10 (ip @ fp)) * pow10 (e - int (length fp)))))"

definition decimal_literal :: "string \<Rightarrow> jsnum" where
  "decimal_literal s =
     (let (sg, r) = take_sign s in
      if r = ''Infinity'' then (if sg = 1 then PosInf else NegInf)
      else (case unsigned_decimal r of None \<Rightarrow> NaN | Some q \<Rightarrow> Fin (of_int sg * q)))"

definition string_to_number :: "string \<Rightarrow> jsnum" where
  "string_to_number s =
     (let t = trim s in
      if t = [] then Fin 0
      else if take 2 t = ''0x'' \<or> take 2 t = ''0X'' then radix_literal 16 (drop 2 t)
      else if take 2 t = ''0o'' \<or> take 2 t = ''0O'' then radix_literal 8 (drop 2 t)
      else if take 2 t = ''0b'' \<or> take 2 t = ''0B'' then radix_literal 2 (drop 2 t)
      else decimal_literal t)"

section \<open>Schema model (\<open>form-schema.ts\<close>)\<close>

text \<open>
  Record fields are global names in Isabelle, so the fields of each TypeScript interface
  carry a short prefix: \<open>f_\<close> for \<open>FormField\<close>, \<open>s_\<close> for \<open>FormSection\<close>, \<open>p_\<close> for the
  property bag, \<open>v_\<close> for its \<open>validation\<close> part, \<open>e_\<close> for \<open>ValidationError\<close>. An optional field (\<open>x?: T\<close>) is an
  \<open>option\<close>; \<open>None\<close> is \<open>undefined\<close>.

  \<open>order\<close> is a number; the model takes integers, which is what the handlers write.

  A field's \<open>properties\<close> is an object, so the field holds a reference to it: an address
  into a store of property bags. Spreading a field (\<open>{...item}\<close>) copies that reference,
  not the object behind it. The validation code reads the bag \<open>as any\<close>, so one record
  with every key optional stands for the union \<open>FieldProperties\<close>.
\<close>

datatype FieldType =
    short_text | long_text | date_picker | dropdown | file_upload | number
  | udf_designation | udf_department | udf_location | udf_blood_group | udf_education

text \<open>The tag as the string the source compares and prefixes.\<close>

fun type_tag :: "FieldType \<Rightarrow> string" where
  "type_tag short_text = ''short-text''"
| "type_tag long_text = ''long-text''"
| "type_tag date_picker = ''date-picker''"
| "type_tag dropdown = ''dropdown''"
| "type_tag file_upload = ''file-upload''"
| "type_tag number = ''number''"
| "type_tag udf_designation = ''udf-designation''"
| "type_tag udf_department = ''udf-department''"
| "type_tag udf_location = ''udf-location''"
| "type_tag udf_blood_group = ''udf-blood-group''"
| "type_tag udf_education = ''udf-education''"

datatype DateFormat = MM_DD_YYYY | DD_MM_YYYY | YYYY_MM_DD

datatype SelectionType = single | multi

record DropdownOption =
  o_id :: string
  o_label :: string
  o_value :: string

record Validation =
  v_required :: "bool option"
  v_minLength :: "jsnum option"
  v_maxLength :: "jsnum option"
  v_pattern :: "string option"

record FieldProperties =
  p_placeholder :: "string option"
  p_validation :: "Validation option"
  p_dateFormat :: "DateFormat option"
  p_options :: "DropdownOption list option"
  p_selectionType :: "SelectionType option"
  p_allowOther :: "bool option"
  p_min :: "jsnum option"
  p_max :: "jsnum option"
  p_step :: "jsnum option"
  p_acceptedTypes :: "string list option"
  p_maxSize :: "jsnum option"
  p_multiple :: "bool option"

type_synonym addr = nat

record FormField =
  f_id :: string
  f_type :: FieldType
  f_label :: string
  f_description :: "string option"
  f_required :: bool
  f_showDescription :: bool
  f_properties :: addr
  f_order :: int

record FormSection =
  s_id :: string
  s_title :: string
  s_description :: "string option"
  s_fields :: "FormField list"
  s_order :: int

text \<open>
  \<open>FormItem = FormField | FormSection\<close>. The source discriminates structurally:
  \<open>isFormField\<close> is \<open>"type" in item\<close> and \<open>isFormSection\<close> is \<open>"fields" in item\<close>.
\<close>

datatype FormItem = FieldItem FormField | SectionItem FormSection

fun isFormField :: "FormItem \<Rightarrow> bool" where
  "isFormField (FieldItem _) = True"
| "isFormField (SectionItem _) = False"

fun isFormSection :: "FormItem \<Rightarrow> bool" where
  "isFormSection (SectionItem _) = True"
| "isFormSection (FieldItem _) = False"

fun item_id :: "FormItem \<Rightarrow> string" where
  "item_id (FieldItem f) = f_id f"
| "item_id (SectionItem s) = s_id s"

fun item_order :: "FormItem \<Rightarrow> int" where
  "item_order (FieldItem f) = f_order f"
| "item_order (SectionItem s) = s_order s"

text \<open>\<open>item.order = n\<close>\<close>

fun set_item_order :: "int \<Rightarrow> FormItem \<Rightarrow> FormItem" where
  "set_item_order n (FieldItem f) = FieldItem (f\<lparr>f_order := n\<rparr>)"
| "set_item_order n (SectionItem s) = SectionItem (s\<lparr>s_order := n\<rparr>)"

record FormSchema =
  schema_id :: string
  schema_title :: string
  schema_description :: "string option"
  items :: "FormItem list"
  createdAt :: jsnum
  updatedAt :: jsnum

text \<open>
  \<open>getAllFields(items)\<close>: the fields in document order, a section's fields standing at
  the section's position.
\<close>

fun getAllFields :: "FormItem list \<Rightarrow> FormField list" where
  "getAllFields [] = []"
| "getAllFields (FieldItem f # rest) = f # getAllFields rest"
| "getAllFields (SectionItem s # rest) = s_fields s @ getAllFields rest"

subsection \<open>The store of property bags\<close>

record Heap =
  objs :: "addr \<Rightarrow> FieldProperties"
  next_free :: addr

text \<open>A new object literal: a fresh address holding the bag.\<close>

definition alloc :: "FieldProperties \<Rightarrow> Heap \<Rightarrow> addr \<times> Heap" where
  "alloc p h = (next_free h, h\<lparr>objs := (objs h)(next_free h := p), next_free := Suc (next_free h)\<rparr>)"

text \<open>An assignment through a reference (\<open>ref.key = value\<close>) replaces the bag at the address.\<close>

definition heap_write :: "addr \<Rightarrow> FieldProperties \<Rightarrow> Heap \<Rightarrow> Heap" where
  "heap_write a p h = h\<lparr>objs := (objs h)(a := p)\<rparr>"

definition no_properties :: FieldProperties where
  "no_properties =
     \<lparr>p_placeholder = None, p_validation = None, p_dateFormat = None, p_options = None,
      p_selectionType = None, p_allowOther = None, p_min = None, p_max = None, p_step = None,
      p_acceptedTypes = None, p_maxSize = None, p_multiple = None\<rparr>"

text \<open>\<open>FIELD_TYPES[type].label\<close>\<close>

fun type_label :: "FieldType \<Rightarrow> string" where
  "type_label short_text = ''Short Text''"
| "type_label long_text = ''Long Text''"
| "type_label date_picker = ''Date Picker''"
| "type_label dropdown = ''Dropdown''"
| "type_label file_upload = ''File Upload''"
| "type_label number = ''Number''"
| "type_label udf_designation = ''Designation''"
| "type_label udf_department = ''Department''"
| "type_label udf_location = ''Location''"
| "type_label udf_blood_group = ''Blood Group''"
| "type_label udf_education = ''Education''"

text \<open>The \<open>properties\<close> literal that \<open>createDefaultField(type)\<close> builds.\<close>

fun defaultProperties :: "FieldType \<Rightarrow> FieldProperties" where
  "defaultProperties date_picker =
     no_properties\<lparr>p_dateFormat := Some MM_DD_YYYY, p_placeholder := Some ''Select a date''\<rparr>"
| "defaultProperties dropdown =
     no_properties\<lparr>p_options := Some [\<lparr>o_id = ''1'', o_label = ''Option 1'', o_value = ''option1''\<rparr>],
                   p_selectionType := Some single, p_placeholder := Some ''Select an option''\<rparr>"
| "defaultProperties number =
     no_properties\<lparr>p_placeholder := Some ''Enter a number'', p_min := Some (Fin 0), p_step := Some (Fin 1)\<rparr>"
| "defaultProperties file_upload =
     no_properties\<lparr>p_acceptedTypes := Some [''.pdf'', ''.doc'', ''.docx''],
                   p_maxSize := Some (Fin 10485760), p_multiple := Some False\<rparr>"
| "defaultProperties t =
     no_properties\<lparr>p_placeholder := Some (''Enter '' @ toLowerCase (type_label t))\<rparr>"

text \<open>
  \<open>createDefaultField(type)\<close> returns a field without \<open>id\<close> and \<open>order\<close>; every caller
  spreads it and adds the two, so the model takes them as arguments.
\<close>

definition createDefaultField :: "FieldType \<Rightarrow> string \<Rightarrow> int \<Rightarrow> Heap \<Rightarrow> FormField \<times> Heap" where
  "createDefaultField t new_id ord h =
     (let (a, h') = alloc (defaultProperties t) h in
      (\<lparr>f_id = new_id, f_type = t, f_label = type_label t, f_description = Some [],
        f_required = False, f_showDescription = False, f_properties = a, f_order = ord\<rparr>, h'))"

text \<open>\<open>createDefaultSection()\<close>, with the identifier that \<open>generateId()\<close> drew.\<close>

definition createDefaultSection :: "string \<Rightarrow> FormSection" where
  "createDefaultSection new_id =
     \<lparr>s_id = new_id, s_title = ''New Section'', s_description = Some [], s_fields = [], s_order = 0\<rparr>"

section \<open>Validation (\<open>form-validation.ts\<close>)\<close>

text \<open>
  Some services of the JavaScript host are inputs of the model, since their results are
  fixed by the engine and not by this repository: compiling a regular expression
  (\<open>new RegExp(p)\<close> throws a \<open>SyntaxError\<close> on a malformed pattern, here \<open>None\<close>, and
  otherwise yields the matcher that \<open>test\<close> runs), parsing a date string
  (\<open>new Date(s).getTime()\<close>), printing a number and printing a date.
  \<open>size_text\<close> stands for the last four lines of \<open>formatFileSize\<close>, which compute the
  unit with floating-point logarithms and print with \<open>toFixed\<close>. None of them is
  reached before the required check of \<open>validateField\<close> has passed.
\<close>

record Host =
  RegExp_compile :: "string \<Rightarrow> (string \<Rightarrow> bool) option"
  Date_parse :: "string \<Rightarrow> jsnum"
  Number_toString :: "jsnum \<Rightarrow> string"
  Date_toString :: "jsnum \<Rightarrow> string"
  size_text :: "jsnum \<Rightarrow> string"

text \<open>
  The exceptions the modelled code can raise: the \<open>SyntaxError\<close> of \<open>new RegExp\<close>, in
  validation, and the \<open>RangeError\<close> of the date library's \<open>format\<close>, in rendering.
\<close>

datatype JsError = SyntaxError | RangeError

text \<open>
  \<open>String(v)\<close> as \<open>Array.prototype.join\<close> applies it to an element (\<open>undefined\<close> and
  \<open>null\<close> give the empty string there), and \<open>Number(v)\<close>.
\<close>

fun element_string :: "Host \<Rightarrow> JsValue \<Rightarrow> string" where
  "element_string host JUndefined = []"
| "element_string host JNull = []"
| "element_string host (JBool b) = (if b then ''true'' else ''false'')"
| "element_string host (JNum n) = Number_toString host n"
| "element_string host (JStr s) = s"
| "element_string host (JArr xs) = join '','' (map (element_string host) xs)"
| "element_string host (JDate t) = Date_toString host t"
| "element_string host (JFile _ _) = ''[object File]''"
| "element_string host (JFileList _) = ''[object FileList]''"
| "element_string host JObject = ''[object Object]''"

fun to_number :: "Host \<Rightarrow> JsValue \<Rightarrow> jsnum" where
  "to_number host JUndefined = NaN"
| "to_number host JNull = Fin 0"
| "to_number host (JBool b) = (if b then Fin 1 else Fin 0)"
| "to_number host (JNum n) = n"
| "to_number host (JStr s) = string_to_number s"
| "to_number host (JArr xs) = string_to_number (element_string host (JArr xs))"
| "to_number host (JDate t) = t"
| "to_number host (JFile _ _) = NaN"
| "to_number host (JFileList _) = NaN"
| "to_number host JObject = NaN"

record ValidationError =
  e_fieldId :: string
  e_message :: string

record ValidationResult =
  isValid :: bool
  errors :: "ValidationError list"

text \<open>
  The test the source writes twice, for the required check and for the skip:
  \<open>!value || (typeof value === "string" && value.trim() === "")\<close>.
\<close>

definition empty_value :: "JsValue \<Rightarrow> bool" where
  "empty_value v = (\<not> truthy v \<or> (case v of JStr s \<Rightarrow> trim s = [] | _ \<Rightarrow> False))"

definition err :: "FormField \<Rightarrow> string \<Rightarrow> ValidationError" where
  "err field text = \<lparr>e_fieldId = f_id field, e_message = f_label field @ text\<rparr>"

text \<open>\<open>properties.validation?.key\<close>\<close>

definition validation_key :: "(Validation \<Rightarrow> 'a option) \<Rightarrow> FieldProperties \<Rightarrow> 'a option" where
  "validation_key key props = (case p_validation props of None \<Rightarrow> None | Some v \<Rightarrow> key v)"

text \<open>The cases \<open>"short-text"\<close> and \<open>"long-text"\<close>.\<close>

definition validateText :: "Host \<Rightarrow> FieldProperties \<Rightarrow> FormField \<Rightarrow> JsValue \<Rightarrow> JsError + ValidationError list" where
  "validateText host props field v =
     (case v of
        JStr s \<Rightarrow>
          (let e1 = (case validation_key v_minLength props of
                       Some n \<Rightarrow>
                         if num_truthy n \<and> num_lt (Fin (of_nat (length s))) n
                         then [err field ('' must be at least '' @ Number_toString host n @ '' characters'')]
                         else []
                     | None \<Rightarrow> []);
               e2 = (case validation_key v_maxLength props of
                       Some n \<Rightarrow>
                         if num_truthy n \<and> num_gt (Fin (of_nat (length s))) n
                         then [err field ('' must be no more than '' @ Number_toString host n @ '' characters'')]
                         else []
                     | None \<Rightarrow> [])
           in (case validation_key v_pattern props of
                 None \<Rightarrow> Inr (e1 @ e2)
               | Some pat \<Rightarrow>
                   if pat = [] then Inr (e1 @ e2)
                   else (case RegExp_compile host pat of
                           None \<Rightarrow> Inl SyntaxError
                         | Some test \<Rightarrow>
                             Inr (e1 @ e2 @ (if \<not> test s then [err field '' format is invalid''] else [])))))
      | _ \<Rightarrow> Inr [])"

text \<open>The case \<open>"number"\<close>.\<close>

definition validateNumber :: "Host \<Rightarrow> FieldProperties \<Rightarrow> FormField \<Rightarrow> JsValue \<Rightarrow> ValidationError list" where
  "validateNumber host props field v =
     (let numValue = to_number host v in
      if numValue = NaN then [err field '' must be a valid number'']
      else
        (case p_min props of
           Some m \<Rightarrow> if num_lt numValue m then [err field ('' must be at least '' @ Number_toString host m)] else []
         | None \<Rightarrow> [])
        @ (case p_max props of
             Some m \<Rightarrow> if num_gt numValue m then [err field ('' must be no more than '' @ Number_toString host m)] else []
           | None \<Rightarrow> []))"

fun isValidDate :: "Host \<Rightarrow> JsValue \<Rightarrow> bool" where
  "isValidDate host (JDate t) = (t \<noteq> NaN)"
| "isValidDate host (JStr s) = (Date_parse host s \<noteq> NaN)"
| "isValidDate host _ = False"

text \<open>The case \<open>"date-picker"\<close>.\<close>

definition validateDate :: "Host \<Rightarrow> FormField \<Rightarrow> JsValue \<Rightarrow> ValidationError list" where
  "validateDate host field v =
     (if truthy v \<and> \<not> isValidDate host v then [err field '' must be a valid date''] else [])"

text \<open>The case \<open>"dropdown"\<close>.\<close>

definition validateDropdown :: "FieldProperties \<Rightarrow> FormField \<Rightarrow> JsValue \<Rightarrow> ValidationError list" where
  "validateDropdown props field v =
     (if p_selectionType props = Some single \<and> isArray v
      then [err field '' allows only single selection''] else [])
     @ (if p_selectionType props = Some multi \<and> \<not> isArray v
        then [err field '' requires array for multiple selection''] else [])"

text \<open>
  The case \<open>"file-upload"\<close>. \<open>files\<close> is the array itself or \<open>Array.from\<close> of the file
  list; each of the two loops reports the first offending \<open>File\<close> and breaks.
\<close>

fun files_of :: "JsValue \<Rightarrow> JsValue list option" where
  "files_of (JFileList fs) = Some (map (\<lambda>(n, sz). JFile n sz) fs)"
| "files_of (JArr xs) = Some xs"
| "files_of _ = None"

fun bad_extension :: "string list \<Rightarrow> JsValue \<Rightarrow> bool" where
  "bad_extension accepted (JFile n sz) = (''.'' @ toLowerCase (last_segment n) \<notin> set accepted)"
| "bad_extension accepted _ = False"

fun too_big :: "jsnum \<Rightarrow> JsValue \<Rightarrow> bool" where
  "too_big m (JFile n sz) = num_gt (Fin (of_nat sz)) m"
| "too_big m _ = False"

definition formatFileSize :: "Host \<Rightarrow> jsnum \<Rightarrow> string" where
  "formatFileSize host bytes = (if bytes = Fin 0 then ''0 Bytes'' else size_text host bytes)"

definition validateFiles :: "Host \<Rightarrow> FieldProperties \<Rightarrow> FormField \<Rightarrow> JsValue \<Rightarrow> ValidationError list" where
  "validateFiles host props field v =
     (case files_of v of
        None \<Rightarrow> []
      | Some files \<Rightarrow>
          (case p_acceptedTypes props of
             Some accepted \<Rightarrow>
               if accepted \<noteq> [] \<and> list_ex (bad_extension accepted) files
               then [err field ('' accepts only '' @ join '', '' accepted @ '' files'')] else []
           | None \<Rightarrow> [])
          @ (case p_maxSize props of
               Some m \<Rightarrow>
                 if num_truthy m \<and> list_ex (too_big m) files
                 then [err field ('' file size must be less than '' @ formatFileSize host m)] else []
             | None \<Rightarrow> [])
          @ (if p_multiple props \<noteq> Some True \<and> length files > 1
             then [err field '' allows only single file upload''] else []))"

text \<open>
  \<open>validateField(field, value)\<close>. \<open>h\<close> is the store that \<open>field.properties\<close> points into.
  The result is \<open>Inl\<close> of the exception when the call throws, else \<open>Inr\<close> of the errors.
\<close>

definition validateField :: "Host \<Rightarrow> Heap \<Rightarrow> FormField \<Rightarrow> JsValue \<Rightarrow> JsError + ValidationError list" where
  "validateField host h field v =
     (if f_required field \<and> empty_value v then Inr [err field '' is required'']
      else if empty_value v then Inr []
      else
        (let props = objs h (f_properties field) in
         case f_type field of
           short_text \<Rightarrow> validateText host props field v
         | long_text \<Rightarrow> validateText host props field v
         | number \<Rightarrow> Inr (validateNumber host props field v)
         | date_picker \<Rightarrow> Inr (validateDate host field v)
         | dropdown \<Rightarrow> Inr (validateDropdown props field v)
         | file_upload \<Rightarrow> Inr (validateFiles host props field v)
         | _ \<Rightarrow> Inr []))"

text \<open>
  \<open>validateForm\<close> reads \<open>schema.sections\<close>. The item-based schema has no such key; the
  renderer's \<open>handleSubmit\<close> adds it to a copy of the schema: one section \<open>"temp"\<close> holding
  \<open>getAllFields(schema.items)\<close>.
\<close>

record TempSchema = FormSchema +
  sections :: "FormSection list"

text \<open>\<open>values[field.id]\<close> on a \<open>Record<string, any>\<close>: a missing key reads \<open>undefined\<close>.\<close>

definition lookup :: "(string \<rightharpoonup> JsValue) \<Rightarrow> string \<Rightarrow> JsValue" where
  "lookup vals k = (case vals k of None \<Rightarrow> JUndefined | Some v \<Rightarrow> v)"

text \<open>The inner loop over a section's fields and the outer loop over the sections.\<close>

fun validateFields ::
  "Host \<Rightarrow> Heap \<Rightarrow> (string \<rightharpoonup> JsValue) \<Rightarrow> FormField list \<Rightarrow> ValidationError list
   \<Rightarrow> JsError + ValidationError list" where
  "validateFields host h vals [] acc = Inr acc"
| "validateFields host h vals (field # rest) acc =
     (case validateField host h field (lookup vals (f_id field)) of
        Inl e \<Rightarrow> Inl e
      | Inr fieldErrors \<Rightarrow> validateFields host h vals rest (acc @ fieldErrors))"

fun validateSections ::
  "Host \<Rightarrow> Heap \<Rightarrow> (string \<rightharpoonup> JsValue) \<Rightarrow> FormSection list \<Rightarrow> ValidationError list
   \<Rightarrow> JsError + ValidationError list" where
  "validateSections host h vals [] acc = Inr acc"
| "validateSections host h vals (section # rest) acc =
     (case validateFields host h vals (s_fields section) acc of
        Inl e \<Rightarrow> Inl e
      | Inr acc' \<Rightarrow> validateSections host h vals rest acc')"

definition validateForm ::
  "Host \<Rightarrow> Heap \<Rightarrow> TempSchema \<Rightarrow> (string \<rightharpoonup> JsValue) \<Rightarrow> JsError + ValidationResult" where
  "validateForm host h schema vals =
     (case validateSections host h vals (sections schema) [] of
        Inl e \<Rightarrow> Inl e
      | Inr errs \<Rightarrow> Inr \<lparr>isValid = (length errs = 0), errors = errs\<rparr>)"

section \<open>Renderer (\<open>FormRenderer.tsx\<close>)\<close>


record SubmittedFormData =
  sd_schema :: FormSchema
  sd_values :: "string \<rightharpoonup> JsValue"
  submittedAt :: jsnum

record Renderer =
  formValues :: "string \<rightharpoonup> JsValue"
  validationErrors :: "string \<rightharpoonup> string"
  openSections :: "string \<rightharpoonup> bool"
  isSubmitted :: bool
  submittedData :: "SubmittedFormData option"

text \<open>
  The effect that runs when the items change sets every section open; \<open>toggleSection\<close>
  negates a section's flag (\<open>!prev[sectionId]\<close>, where a missing key reads \<open>undefined\<close>).
\<close>

fun initialOpenState :: "FormItem list \<Rightarrow> (string \<rightharpoonup> bool)" where
  "initialOpenState [] = Map.empty"
| "initialOpenState (FieldItem f # rest) = initialOpenState rest"
| "initialOpenState (SectionItem s # rest) = (initialOpenState rest)(s_id s \<mapsto> True)"

definition toggleSectionView :: "string \<Rightarrow> Renderer \<Rightarrow> Renderer" where
  "toggleSectionView sectionId r =
     r\<lparr>openSections :=
         (openSections r)(sectionId \<mapsto> (case openSections r sectionId of Some b \<Rightarrow> \<not> b | None \<Rightarrow> True))\<rparr>"

text \<open>\<open>canSubmit()\<close>\<close>

definition canSubmit :: "FormSchema \<Rightarrow> (string \<rightharpoonup> JsValue) \<Rightarrow> bool" where
  "canSubmit schema vals =
     (let allFields = getAllFields (items schema);
          requiredFields = filter f_required allFields
      in list_all (\<lambda>field. let v = lookup vals (f_id field)
                             in v \<noteq> JUndefined \<and> v \<noteq> JNull \<and> v \<noteq> JStr []) requiredFields)"

text \<open>\<open>getSectionProgress(section)\<close>\<close>

definition getSectionProgress :: "(string \<rightharpoonup> JsValue) \<Rightarrow> FormSection \<Rightarrow> nat \<times> nat" where
  "getSectionProgress vals section =
     (length (filter (\<lambda>field. let v = lookup vals (f_id field)
                              in v \<noteq> JUndefined \<and> v \<noteq> JNull \<and> v \<noteq> JStr []) (s_fields section)),
      length (s_fields section))"

text \<open>The temporary schema of \<open>handleSubmit\<close>.\<close>

definition tempSchema :: "FormSchema \<Rightarrow> TempSchema" where
  "tempSchema schema =
     FormSchema.extend schema
       (TempSchema.fields
          [\<lparr>s_id = ''temp'', s_title = ''Form'', s_description = Some [],
            s_fields = getAllFields (items schema), s_order = 0\<rparr>])"

text \<open>\<open>validation.errors.forEach((error) => { errorMap[error.fieldId] = error.message })\<close>\<close>

definition errorMap :: "ValidationError list \<Rightarrow> (string \<rightharpoonup> string)" where
  "errorMap errs = fold (\<lambda>e m. m(e_fieldId e \<mapsto> e_message e)) errs Map.empty"

text \<open>\<open>handleSubmit\<close>; \<open>now\<close> is the clock's reading for \<open>submittedAt\<close>.\<close>

definition handleSubmit :: "Host \<Rightarrow> Heap \<Rightarrow> jsnum \<Rightarrow> FormSchema \<Rightarrow> Renderer \<Rightarrow> JsError + Renderer" where
  "handleSubmit host h now schema r =
     (case validateForm host h (tempSchema schema) (formValues r) of
        Inl e \<Rightarrow> Inl e
      | Inr validation \<Rightarrow>
          if \<not> isValid validation
          then Inr (r\<lparr>validationErrors := errorMap (errors validation)\<rparr>)
          else Inr (r\<lparr>validationErrors := Map.empty,
                      submittedData := Some \<lparr>sd_schema = schema, sd_values = formValues r, submittedAt = now\<rparr>,
                      isSubmitted := True\<rparr>))"

text \<open>\<open>updateValue\<close> and \<open>handleClear\<close>\<close>

definition updateValue :: "string \<Rightarrow> JsValue \<Rightarrow> Renderer \<Rightarrow> Renderer" where
  "updateValue fid v r =
     r\<lparr>formValues := (formValues r)(fid \<mapsto> v),
       validationErrors := (if (case validationErrors r fid of None \<Rightarrow> False | Some m \<Rightarrow> m \<noteq> [])
                            then (validationErrors r)(fid := None) else validationErrors r)\<rparr>"

definition handleClear :: "Renderer \<Rightarrow> Renderer" where
  "handleClear r = r\<lparr>formValues := Map.empty, validationErrors := Map.empty\<rparr>"

datatype ControlKind =
  InputText | TextareaBox | InputNumber | DateButton | Checkboxes | SelectBox | FileInput

record Control =
  c_kind :: ControlKind
  c_value :: JsValue
  c_disabled :: bool
  c_placeholder :: "string option"


text \<open>\<open>fieldValue || ""\<close>\<close>

definition or_empty :: "JsValue \<Rightarrow> JsValue" where
  "or_empty v = (if truthy v then v else JStr [])"

text \<open>\<open>const isUDF = field.type.startsWith("udf-")\<close>\<close>

definition isUDF :: "FormField \<Rightarrow> bool" where
  "isUDF field = startsWith (type_tag (f_type field)) ''udf-''"

text \<open>
  \<open>new Date(value)\<close>, as its time value (\<open>NaN\<close> for an invalid date): a \<open>Date\<close> is
  copied, a string is parsed, an object is parsed as the string it converts to, and any
  other value is converted to a number and clipped to the range of time values.
\<close>

fun time_clip :: "jsnum \<Rightarrow> jsnum" where
  "time_clip (Fin q) =
     (if \<bar>q\<bar> > 8640000000000000 then NaN
      else Fin (of_int (if q \<ge> 0 then \<lfloor>q\<rfloor> else - \<lfloor>- q\<rfloor>)))"
| "time_clip _ = NaN"

fun new_Date :: "Host \<Rightarrow> JsValue \<Rightarrow> jsnum" where
  "new_Date host (JDate t) = t"
| "new_Date host (JStr s) = Date_parse host s"
| "new_Date host (JArr xs) = Date_parse host (element_string host (JArr xs))"
| "new_Date host (JFile n sz) = Date_parse host (element_string host (JFile n sz))"
| "new_Date host (JFileList fs) = Date_parse host (element_string host (JFileList fs))"
| "new_Date host JObject = Date_parse host (element_string host JObject)"
| "new_Date host v = time_clip (to_number host v)"

text \<open>
  The control that \<open>renderField\<close> hands to \<open>fieldWrapper\<close>. The date picker's button
  shows \<open>format(new Date(fieldValue), "PPP")\<close> for a truthy value, and the library's
  \<open>format\<close> throws a \<open>RangeError\<close> on an invalid date; the formatted text itself is not
  recorded in the control. No other branch can throw.
\<close>

definition field_control :: "Host \<Rightarrow> Heap \<Rightarrow> JsValue \<Rightarrow> FormField \<Rightarrow> bool \<Rightarrow> JsError + Control" where
  "field_control host h fieldValue field disabled =
     (if isUDF field
      then Inr \<lparr>c_kind = InputText, c_value = JStr [], c_disabled = True,
                c_placeholder = Some (f_label field @ '' (auto-filled from user data)'')\<rparr>
      else
        (case f_type field of
           short_text \<Rightarrow>
             Inr \<lparr>c_kind = InputText, c_value = or_empty fieldValue, c_disabled = disabled,
                  c_placeholder = Some ''Your Answer''\<rparr>
         | long_text \<Rightarrow>
             Inr \<lparr>c_kind = TextareaBox, c_value = or_empty fieldValue, c_disabled = disabled,
                  c_placeholder = Some ''Your Answer''\<rparr>
         | number \<Rightarrow>
             Inr \<lparr>c_kind = InputNumber, c_value = or_empty fieldValue, c_disabled = disabled,
                  c_placeholder = Some ''Your Answer''\<rparr>
         | date_picker \<Rightarrow>
             (if truthy fieldValue \<and> new_Date host fieldValue = NaN then Inl RangeError
              else Inr \<lparr>c_kind = DateButton, c_value = fieldValue, c_disabled = disabled,
                        c_placeholder = None\<rparr>)
         | dropdown \<Rightarrow>
             (if p_selectionType (objs h (f_properties field)) = Some multi
              then Inr \<lparr>c_kind = Checkboxes, c_value = fieldValue, c_disabled = disabled,
                        c_placeholder = None\<rparr>
              else Inr \<lparr>c_kind = SelectBox, c_value = or_empty fieldValue, c_disabled = disabled,
                        c_placeholder = Some ''Select''\<rparr>)
         | file_upload \<Rightarrow>
             Inr \<lparr>c_kind = FileInput, c_value = fieldValue, c_disabled = disabled, c_placeholder = None\<rparr>
         | _ \<Rightarrow>
             Inr \<lparr>c_kind = InputText, c_value = or_empty fieldValue, c_disabled = disabled,
                  c_placeholder = Some ''Your Answer''\<rparr>))"













section \<open>Canvas (\<open>FormCanvas.tsx\<close>)\<close>

subsection \<open>Array operations\<close>

text \<open>
  \<open>Array.prototype.splice(start, ...)\<close> clamps its start: a negative start counts from
  the end, and the result is kept between 0 and the length. Positions are integers: they
  come from \<open>getDropZonePosition\<close> and from indices.
\<close>

definition splice_start :: "int \<Rightarrow> nat \<Rightarrow> nat" where
  "splice_start start len = (if start < 0 then nat (max (int len + start) 0) else min (nat start) len)"

text \<open>\<open>xs.splice(start, 0, x)\<close>: the array afterwards.\<close>

definition splice_insert :: "int \<Rightarrow> 'a \<Rightarrow> 'a list \<Rightarrow> 'a list" where
  "splice_insert start x xs = (let k = splice_start start (length xs) in take k xs @ x # drop k xs)"

text \<open>\<open>xs.splice(start, 1)\<close>: the removed elements and the array afterwards.\<close>

definition splice_remove :: "int \<Rightarrow> 'a list \<Rightarrow> 'a list \<times> 'a list" where
  "splice_remove start xs =
     (let k = splice_start start (length xs) in (take 1 (drop k xs), take k xs @ drop (Suc k) xs))"

text \<open>\<open>xs.findIndex(P)\<close>: the first index where \<open>P\<close> holds, \<open>-1\<close> when there is none.\<close>

fun findIndex :: "('a \<Rightarrow> bool) \<Rightarrow> 'a list \<Rightarrow> int" where
  "findIndex P [] = -1"
| "findIndex P (x # xs) =
     (if P x then 0 else (let r = findIndex P xs in if r < 0 then -1 else r + 1))"

text \<open>\<open>fields.forEach((field, index) => { field.order = index })\<close>, and the same on items.\<close>

definition renumberFields :: "FormField list \<Rightarrow> FormField list" where
  "renumberFields fs = map (\<lambda>(i, f). f\<lparr>f_order := int i\<rparr>) (enumerate 0 fs)"

definition renumberItems :: "FormItem list \<Rightarrow> FormItem list" where
  "renumberItems its = map (\<lambda>(i, it). set_item_order (int i) it) (enumerate 0 its)"

text \<open>An update of the object that an item cast \<open>as FormSection\<close> denotes.\<close>

fun with_section :: "(FormSection \<Rightarrow> FormSection) \<Rightarrow> FormItem \<Rightarrow> FormItem" where
  "with_section g (SectionItem s) = SectionItem (g s)"
| "with_section g (FieldItem f) = FieldItem f"

text \<open>An optional string argument is truthy when it is given and not empty.\<close>

fun given :: "string option \<Rightarrow> bool" where
  "given None = False"
| "given (Some t) = (t \<noteq> [])"

definition is_section_with_id :: "string option \<Rightarrow> FormItem \<Rightarrow> bool" where
  "is_section_with_id t item = (isFormSection item \<and> Some (item_id item) = t)"

subsection \<open>State\<close>

text \<open>
  The canvas edits the schema that its parent holds and reports through
  \<open>onSchemaChange\<close> and \<open>onFieldSelect\<close>, which the parent (\<open>FormBuilder\<close>) wires to its
  \<open>setSchema\<close> and \<open>setSelectedField\<close>. The state below is what the handlers read and
  write: the schema, the store its fields point into, the selection and the open flags of
  the sections. \<open>generateId()\<close> is \<open>Math.random().toString(36).substr(2, 9)\<close>: up to nine
  base-36 digits of a random draw, chosen without a look at the ids in use. Every
  identifier drawn is an argument \<open>new_id\<close> of the handler that draws it.
\<close>

record Canvas =
  cv_schema :: FormSchema
  cv_heap :: Heap
  cv_selectedField :: "string option"
  cv_openSections :: "string \<rightharpoonup> bool"

definition set_items :: "FormItem list \<Rightarrow> Canvas \<Rightarrow> Canvas" where
  "set_items its c = c\<lparr>cv_schema := (cv_schema c)\<lparr>items := its\<rparr>\<rparr>"

text \<open>
  The insertion both \<open>handleAddField\<close> and \<open>handleReorderField\<close> perform: into the
  section \<open>targetId\<close> when it is given (nothing happens when no section has that id), else
  into the root items; the list inserted into is renumbered.
\<close>

definition insert_at_target :: "FormField \<Rightarrow> string option \<Rightarrow> int option \<Rightarrow> FormItem list \<Rightarrow> FormItem list" where
  "insert_at_target field targetId position its =
     (if given targetId then
        (let sectionIndex = findIndex (is_section_with_id targetId) its in
         if sectionIndex \<ge> 0 then
           its[nat sectionIndex :=
             with_section
               (\<lambda>section.
                  let insertPosition = (case position of Some p \<Rightarrow> p | None \<Rightarrow> int (length (s_fields section)))
                  in section\<lparr>s_fields := renumberFields (splice_insert insertPosition field (s_fields section))\<rparr>)
               (its ! nat sectionIndex)]
         else its)
      else
        (let insertPosition = (case position of Some p \<Rightarrow> p | None \<Rightarrow> int (length its))
         in renumberItems (splice_insert insertPosition (FieldItem field) its)))"

subsection \<open>\<open>handleAddField\<close>\<close>

definition handleAddField :: "FieldType \<Rightarrow> string \<Rightarrow> string option \<Rightarrow> int option \<Rightarrow> Canvas \<Rightarrow> Canvas" where
  "handleAddField fieldType new_id targetId position c =
     (let (newField, h') = createDefaultField fieldType new_id 0 (cv_heap c)
      in (set_items (insert_at_target newField targetId position (items (cv_schema c))) c)
           \<lparr>cv_heap := h', cv_selectedField := Some new_id\<rparr>)"

subsection \<open>\<open>handleReorderField\<close>\<close>

datatype SourceLocation = MainLocation nat | SectionLocation nat string

text \<open>
  The first loop: find the field, at the root or in a section, and remove it there.
  \<open>i\<close> is the loop index of the head of the list.
\<close>

fun removeField :: "string \<Rightarrow> nat \<Rightarrow> FormItem list \<Rightarrow> (FormField \<times> SourceLocation) option \<times> FormItem list" where
  "removeField fieldId i [] = (None, [])"
| "removeField fieldId i (FieldItem f # rest) =
     (if f_id f = fieldId then (Some (f, MainLocation i), rest)
      else (let (found, rest') = removeField fieldId (Suc i) rest in (found, FieldItem f # rest')))"
| "removeField fieldId i (SectionItem s # rest) =
     (let fieldIndex = findIndex (\<lambda>f. f_id f = fieldId) (s_fields s) in
      if fieldIndex \<ge> 0 then
        (Some (s_fields s ! nat fieldIndex, SectionLocation (nat fieldIndex) (s_id s)),
         SectionItem (s\<lparr>s_fields := snd (splice_remove fieldIndex (s_fields s))\<rparr>) # rest)
      else (let (found, rest') = removeField fieldId (Suc i) rest in (found, SectionItem s # rest')))"

text \<open>The last step: renumber the section the field came from, when it came from one.\<close>

fun renumber_source :: "SourceLocation \<Rightarrow> FormItem list \<Rightarrow> FormItem list" where
  "renumber_source (MainLocation i) its = its"
| "renumber_source (SectionLocation k sectionId) its =
     (if sectionId \<noteq> [] then
        (let j = findIndex (is_section_with_id (Some sectionId)) its in
         if j \<ge> 0
         then its[nat j := with_section (\<lambda>s. s\<lparr>s_fields := renumberFields (s_fields s)\<rparr>) (its ! nat j)]
         else its)
      else its)"

definition handleReorderField :: "string \<Rightarrow> string option \<Rightarrow> int option \<Rightarrow> Canvas \<Rightarrow> Canvas" where
  "handleReorderField fieldId targetId position c =
     (case removeField fieldId 0 (items (cv_schema c)) of
        (None, _) \<Rightarrow> c
      | (Some (sourceField, sourceLocation), its) \<Rightarrow>
          set_items (renumber_source sourceLocation (insert_at_target sourceField targetId position its)) c)"

subsection \<open>Moving and deleting sections\<close>

text \<open>
  Remove the item at \<open>fromIndex\<close>, insert it at \<open>toIndex\<close> and renumber all items; both
  indices go through \<open>splice\<close>. Under the guards of the four handlers that do this the
  first \<open>splice\<close> always removes an item.
\<close>

definition move_item :: "int \<Rightarrow> int \<Rightarrow> FormItem list \<Rightarrow> FormItem list" where
  "move_item fromIndex toIndex its =
     (case splice_remove fromIndex its of
        (section # _, rest) \<Rightarrow> renumberItems (splice_insert toIndex section rest)
      | ([], rest) \<Rightarrow> rest)"

definition handleReorderSection :: "string \<Rightarrow> int option \<Rightarrow> Canvas \<Rightarrow> Canvas" where
  "handleReorderSection sectionId newPosition c =
     (let its = items (cv_schema c);
          sectionIndex = findIndex (is_section_with_id (Some sectionId)) its
      in case newPosition of
           Some p \<Rightarrow> if sectionIndex \<ge> 0 then set_items (move_item sectionIndex p its) c else c
         | None \<Rightarrow> c)"

definition handleDialogSectionReorder :: "string \<Rightarrow> int option \<Rightarrow> Canvas \<Rightarrow> Canvas" where
  "handleDialogSectionReorder draggedSectionId targetPosition c =
     (let its = items (cv_schema c);
          draggedIndex = findIndex (is_section_with_id (Some draggedSectionId)) its
      in case targetPosition of
           Some p \<Rightarrow> if draggedIndex \<noteq> -1 then set_items (move_item draggedIndex p its) c else c
         | None \<Rightarrow> c)"

definition handleMoveSectionUp :: "string \<Rightarrow> Canvas \<Rightarrow> Canvas" where
  "handleMoveSectionUp sectionId c =
     (let its = items (cv_schema c);
          currentIndex = findIndex (is_section_with_id (Some sectionId)) its
      in if currentIndex > 0 then set_items (move_item currentIndex (currentIndex - 1) its) c else c)"

definition handleMoveSectionDown :: "string \<Rightarrow> Canvas \<Rightarrow> Canvas" where
  "handleMoveSectionDown sectionId c =
     (let its = items (cv_schema c);
          currentIndex = findIndex (is_section_with_id (Some sectionId)) its
      in if currentIndex < int (length its) - 1
         then set_items (move_item currentIndex (currentIndex + 1) its) c else c)"

definition handleDeleteSection :: "string \<Rightarrow> Canvas \<Rightarrow> Canvas" where
  "handleDeleteSection sectionId c =
     (let its = items (cv_schema c);
          sectionIndex = findIndex (is_section_with_id (Some sectionId)) its
      in if sectionIndex \<ge> 0 then set_items (renumberItems (snd (splice_remove sectionIndex its))) c else c)"

subsection \<open>\<open>handleUpdateField\<close>\<close>

text \<open>
  \<open>updates: Partial<FormField>\<close>: every key of a field may be present or absent.
  \<open>Object.assign(field, updates)\<close> writes each present key into the field.
\<close>

record FieldUpdates =
  u_id :: "string option"
  u_type :: "FieldType option"
  u_label :: "string option"
  u_description :: "string option option"
  u_required :: "bool option"
  u_showDescription :: "bool option"
  u_properties :: "addr option"
  u_order :: "int option"

definition assign :: "FormField \<Rightarrow> FieldUpdates \<Rightarrow> FormField" where
  "assign f u =
     \<lparr>f_id = (case u_id u of Some x \<Rightarrow> x | None \<Rightarrow> f_id f),
      f_type = (case u_type u of Some x \<Rightarrow> x | None \<Rightarrow> f_type f),
      f_label = (case u_label u of Some x \<Rightarrow> x | None \<Rightarrow> f_label f),
      f_description = (case u_description u of Some x \<Rightarrow> x | None \<Rightarrow> f_description f),
      f_required = (case u_required u of Some x \<Rightarrow> x | None \<Rightarrow> f_required f),
      f_showDescription = (case u_showDescription u of Some x \<Rightarrow> x | None \<Rightarrow> f_showDescription f),
      f_properties = (case u_properties u of Some x \<Rightarrow> x | None \<Rightarrow> f_properties f),
      f_order = (case u_order u of Some x \<Rightarrow> x | None \<Rightarrow> f_order f)\<rparr>"

text \<open>
  The loop over the items, which stops at the first root field with the id or the first
  section holding a field with the id (\<open>fields.find\<close>; the object found is updated in
  place, so the model takes its index).
\<close>

fun updateLoop :: "string \<Rightarrow> FieldUpdates \<Rightarrow> FormItem list \<Rightarrow> FormItem list" where
  "updateLoop fid u [] = []"
| "updateLoop fid u (FieldItem f # rest) =
     (if f_id f = fid then FieldItem (assign f u) # rest
      else FieldItem f # updateLoop fid u rest)"
| "updateLoop fid u (SectionItem s # rest) =
     (let k = findIndex (\<lambda>f. f_id f = fid) (s_fields s) in
      if k \<ge> 0
      then SectionItem (s\<lparr>s_fields := (s_fields s)[nat k := assign (s_fields s ! nat k) u]\<rparr>) # rest
      else SectionItem s # updateLoop fid u rest)"

definition handleUpdateField :: "string \<Rightarrow> FieldUpdates \<Rightarrow> Canvas \<Rightarrow> Canvas" where
  "handleUpdateField fid updates c = set_items (updateLoop fid updates (items (cv_schema c))) c"

subsection \<open>\<open>handleDeleteField\<close>\<close>

fun deleteLoop :: "string \<Rightarrow> FormItem list \<Rightarrow> FormItem list" where
  "deleteLoop fid [] = []"
| "deleteLoop fid (FieldItem f # rest) =
     (if f_id f = fid then rest else FieldItem f # deleteLoop fid rest)"
| "deleteLoop fid (SectionItem s # rest) =
     (let fieldIndex = findIndex (\<lambda>f. f_id f = fid) (s_fields s) in
      if fieldIndex \<ge> 0
      then SectionItem (s\<lparr>s_fields := renumberFields (snd (splice_remove fieldIndex (s_fields s)))\<rparr>) # rest
      else SectionItem s # deleteLoop fid rest)"

definition handleDeleteField :: "string \<Rightarrow> Canvas \<Rightarrow> Canvas" where
  "handleDeleteField fid c =
     (set_items (renumberItems (deleteLoop fid (items (cv_schema c)))) c)
       \<lparr>cv_selectedField := (if cv_selectedField c = Some fid then None else cv_selectedField c)\<rparr>"

subsection \<open>\<open>handleCloneField\<close>\<close>

text \<open>
  \<open>{...item, id: generateId(), label: `${item.label} (Copy)`, order: i + 1}\<close>: a new
  field object whose other keys, the \<open>properties\<close> reference among them, are the
  original's.
\<close>

definition clone_of :: "FormField \<Rightarrow> string \<Rightarrow> nat \<Rightarrow> FormField" where
  "clone_of f new_id i = f\<lparr>f_id := new_id, f_label := f_label f @ '' (Copy)'', f_order := int i + 1\<rparr>"

text \<open>
  The loop; \<open>i\<close> is the loop index of the head of the list. At the root the clone is
  spliced in at \<open>i + 1\<close>, that is, right behind the head. In a section the clone is
  spliced in at \<open>fieldIndex + 1\<close> and the section's fields are renumbered.
\<close>

fun cloneLoop :: "string \<Rightarrow> string \<Rightarrow> nat \<Rightarrow> FormItem list \<Rightarrow> FormItem list" where
  "cloneLoop fid new_id i [] = []"
| "cloneLoop fid new_id i (FieldItem f # rest) =
     (if f_id f = fid then FieldItem f # FieldItem (clone_of f new_id i) # rest
      else FieldItem f # cloneLoop fid new_id (Suc i) rest)"
| "cloneLoop fid new_id i (SectionItem s # rest) =
     (let fieldIndex = findIndex (\<lambda>f. f_id f = fid) (s_fields s) in
      if fieldIndex \<ge> 0 then
        (let originalField = s_fields s ! nat fieldIndex;
             clonedField = clone_of originalField new_id (nat fieldIndex)
         in SectionItem
              (s\<lparr>s_fields := renumberFields (splice_insert (fieldIndex + 1) clonedField (s_fields s))\<rparr>)
            # rest)
      else SectionItem s # cloneLoop fid new_id (Suc i) rest)"

definition handleCloneField :: "string \<Rightarrow> string \<Rightarrow> Canvas \<Rightarrow> Canvas" where
  "handleCloneField fid new_id c = set_items (cloneLoop fid new_id 0 (items (cv_schema c))) c"

subsection \<open>Sections and header\<close>

definition handleAddSection :: "string \<Rightarrow> Canvas \<Rightarrow> Canvas" where
  "handleAddSection new_id c =
     (let newSection = (createDefaultSection new_id)\<lparr>s_order := int (length (items (cv_schema c)))\<rparr>
      in (set_items (items (cv_schema c) @ [SectionItem newSection]) c)
           \<lparr>cv_openSections := (cv_openSections c)(new_id \<mapsto> True)\<rparr>)"

datatype HeaderKey = title | description

text \<open>\<open>handleHeaderUpdate\<close>; \<open>now\<close> is the clock's reading.\<close>

definition handleHeaderUpdate :: "HeaderKey \<Rightarrow> string \<Rightarrow> jsnum \<Rightarrow> Canvas \<Rightarrow> Canvas" where
  "handleHeaderUpdate key v now c =
     c\<lparr>cv_schema :=
         (case key of
            title \<Rightarrow> (cv_schema c)\<lparr>schema_title := v, updatedAt := now\<rparr>
          | description \<Rightarrow> (cv_schema c)\<lparr>schema_description := Some v, updatedAt := now\<rparr>)\<rparr>"

definition handleSectionUpdate :: "string \<Rightarrow> HeaderKey \<Rightarrow> string \<Rightarrow> Canvas \<Rightarrow> Canvas" where
  "handleSectionUpdate sectionId key v c =
     (let its = items (cv_schema c);
          j = findIndex (is_section_with_id (Some sectionId)) its
      in if j \<ge> 0
         then set_items
                (its[nat j :=
                   with_section
                     (\<lambda>s. case key of title \<Rightarrow> s\<lparr>s_title := v\<rparr> | description \<Rightarrow> s\<lparr>s_description := Some v\<rparr>)
                     (its ! nat j)]) c
         else c)"

text \<open>\<open>toggleSection\<close>: \<open>!prev[sectionId]\<close>, where a missing key reads \<open>undefined\<close>.\<close>

definition toggleSection :: "string \<Rightarrow> Canvas \<Rightarrow> Canvas" where
  "toggleSection sectionId c =
     c\<lparr>cv_openSections :=
         (cv_openSections c)(sectionId \<mapsto> (case cv_openSections c sectionId of Some b \<Rightarrow> \<not> b | None \<Rightarrow> True))\<rparr>"

subsection \<open>\<open>getDropZonePosition\<close>\<close>





section \<open>Predicates on schemas\<close>

text \<open>
  Order density of a list: every element's \<open>order\<close> is its 0-based index. For a schema
  it is demanded of the root items and of the fields of every section.
\<close>

definition fields_dense :: "FormField list \<Rightarrow> bool" where
  "fields_dense fs = (map f_order fs = map int [0..<length fs])"

definition items_dense :: "FormItem list \<Rightarrow> bool" where
  "items_dense its = (map item_order its = map int [0..<length its])"

fun section_dense :: "FormItem \<Rightarrow> bool" where
  "section_dense (FieldItem f) = True"
| "section_dense (SectionItem s) = fields_dense (s_fields s)"

definition order_density :: "FormItem list \<Rightarrow> bool" where
  "order_density its = (items_dense its \<and> list_all section_dense its)"

text \<open>
  An item holds a field id when it is the field with that id or a section with such a
  field. The loops of the canvas stop at the first item that holds the id they look for.
\<close>

fun holds_field :: "string \<Rightarrow> FormItem \<Rightarrow> bool" where
  "holds_field fid (FieldItem f) = (f_id f = fid)"
| "holds_field fid (SectionItem s) = list_ex (\<lambda>f. f_id f = fid) (s_fields s)"

text \<open>
  The ids of a schema's items in document order: a field's id, and a section's id followed
  by the ids of its fields.
\<close>

fun item_ids :: "FormItem \<Rightarrow> string list" where
  "item_ids (FieldItem f) = [f_id f]"
| "item_ids (SectionItem s) = s_id s # map f_id (s_fields s)"

definition all_ids :: "FormItem list \<Rightarrow> string list" where
  "all_ids its = concat (map item_ids its)"

section \<open>Example data\<close>

text \<open>
  Concrete hosts, stores, fields and schemas, on which the theorems below are evaluated.
  The example host accepts no pattern and no date; the example store holds a multi-select
  dropdown's properties at address 1, the default number properties at 2, the default
  single-select dropdown's at 3 and an empty bag everywhere else.
\<close>

definition ex_host :: Host where
  "ex_host =
     \<lparr>RegExp_compile = (\<lambda>p. None), Date_parse = (\<lambda>s. NaN), Number_toString = (\<lambda>n. ''n''),
      Date_toString = (\<lambda>t. ''d''), size_text = (\<lambda>n. ''s'')\<rparr>"

definition ex_heap :: Heap where
  "ex_heap =
     \<lparr>objs = (\<lambda>a. if a = 1 then (defaultProperties dropdown)\<lparr>p_selectionType := Some multi\<rparr>
                 else if a = 2 then defaultProperties number
                 else if a = 3 then defaultProperties dropdown
                 else no_properties),
      next_free = 4\<rparr>"

definition mk_field :: "string \<Rightarrow> FieldType \<Rightarrow> string \<Rightarrow> bool \<Rightarrow> addr \<Rightarrow> int \<Rightarrow> FormField" where
  "mk_field fid t lbl req a ord =
     \<lparr>f_id = fid, f_type = t, f_label = lbl, f_description = None, f_required = req,
      f_showDescription = False, f_properties = a, f_order = ord\<rparr>"

definition mk_section :: "string \<Rightarrow> FormField list \<Rightarrow> int \<Rightarrow> FormSection" where
  "mk_section sid fs ord =
     \<lparr>s_id = sid, s_title = ''Section'', s_description = None, s_fields = fs, s_order = ord\<rparr>"

definition mk_schema :: "FormItem list \<Rightarrow> FormSchema" where
  "mk_schema its =
     \<lparr>schema_id = ''form'', schema_title = ''Form'', schema_description = None, items = its,
      createdAt = Fin 0, updatedAt = Fin 0\<rparr>"

definition mk_canvas :: "FormItem list \<Rightarrow> Canvas" where
  "mk_canvas its =
     \<lparr>cv_schema = mk_schema its, cv_heap = ex_heap, cv_selectedField = None,
      cv_openSections = Map.empty\<rparr>"

text \<open>The three fields A (required), B (not required) and C (a number field).\<close>

definition ex_A :: FormField where "ex_A = mk_field ''a'' short_text ''A'' True 0 0"
definition ex_B :: FormField where "ex_B = mk_field ''b'' short_text ''B'' False 0 1"
definition ex_C :: FormField where "ex_C = mk_field ''c'' number ''C'' False 2 2"

text \<open>The answers: nothing for A and B, the string \<open>abc\<close> for C.\<close>

definition ex_answers :: "string \<rightharpoonup> JsValue" where
  "ex_answers = [''c'' \<mapsto> JStr ''abc'']"

text \<open>A form with one required text field, answered with a single space.\<close>

definition ex_blank_schema :: FormSchema where
  "ex_blank_schema = mk_schema [FieldItem (mk_field ''name'' short_text ''Name'' True 0 0)]"

definition ex_blank_answers :: "string \<rightharpoonup> JsValue" where
  "ex_blank_answers = [''name'' \<mapsto> JStr '' '']"




text \<open>The update with no key, and a section for the canvas examples.\<close>

definition no_updates :: FieldUpdates where
  "no_updates =
     \<lparr>u_id = None, u_type = None, u_label = None, u_description = None, u_required = None,
      u_showDescription = None, u_properties = None, u_order = None\<rparr>"

definition ex_S :: FormSection where
  "ex_S = mk_section ''s'' [] 1"

text \<open>A canvas with the field A at the root and a section holding B and C.\<close>

definition ex_canvas :: Canvas where
  "ex_canvas = mk_canvas [FieldItem ex_A, SectionItem (mk_section ''s'' [ex_B, ex_C] 1)]"

section \<open>Validation: required and empty values\<close>

text \<open>Validation throws nothing but the \<open>SyntaxError\<close> of a malformed pattern.\<close>

lemma validateText_error: "validateText host props field v = Inl e \<Longrightarrow> e = SyntaxError"
  by (cases e) (auto simp add: validateText_def Let_def split: JsValue.splits option.splits if_splits)

lemma validateField_error: "validateField host h field v = Inl e \<Longrightarrow> e = SyntaxError"
  by (auto simp add: validateField_def Let_def split: if_splits FieldType.splits dest: validateText_error)

lemma trim_space: "trim '' '' = []"
  by (simp add: trim_def js_whitespace_def)

lemma trim_abc: "trim ''abc'' = ''abc''"
  by (simp add: trim_def js_whitespace_def)

lemma abc_is_NaN: "string_to_number ''abc'' = NaN"
  by code_simp

lemma trim_zero: "trim ''0'' = ''0''"
  by (simp add: trim_def js_whitespace_def)

lemma zero_is_0: "string_to_number ''0'' = Fin 0"
  by code_simp

text \<open>
  C9. The number 0 counts as no answer: for every required field, a number field
  included, \<open>validateField\<close> on the number 0 returns exactly the "required" error. The
  bounds \<open>min\<close> and \<open>max\<close> are never looked at, since \<open>!value\<close> holds for 0 and the
  function returns from the required check. The string \<open>0\<close> is an answer: on a number
  field it converts to the number 0 and goes through the bounds check.
\<close>

theorem zero_is_absent:
  assumes "f_required field"
  shows "validateField host h field (JNum (Fin 0))
         = Inr [\<lparr>e_fieldId = f_id field, e_message = f_label field @ '' is required''\<rparr>]
       \<and> (f_type field = number \<longrightarrow>
            to_number host (JStr ''0'') = Fin 0
            \<and> validateField host h field (JStr ''0'')
                = Inr (validateNumber host (objs h (f_properties field)) field (JStr ''0'')))"
  using assms
  by (simp add: validateField_def empty_value_def num_truthy_def err_def trim_zero zero_is_0)

text \<open>
  A required number field with the default bound \<open>min = 0\<close>, answered with the number 0
  and with the string \<open>0\<close>.
\<close>

theorem zero_is_absent_witness:
  "f_required (mk_field ''n'' number ''Age'' True 2 0)
   \<and> validateField ex_host ex_heap (mk_field ''n'' number ''Age'' True 2 0) (JNum (Fin 0))
       = Inr [\<lparr>e_fieldId = ''n'', e_message = ''Age is required''\<rparr>]
   \<and> validateField ex_host ex_heap (mk_field ''n'' number ''Age'' True 2 0) (JStr ''0'') = Inr []"
proof -
  let ?age = "mk_field ''n'' number ''Age'' True 2 0"
  have req: "f_required ?age" by (simp add: mk_field_def)
  have ty: "f_type ?age = number" by (simp add: mk_field_def)
  from zero_is_absent [OF req, of ex_host ex_heap] ty
  have zero: "validateField ex_host ex_heap ?age (JNum (Fin 0))
              = Inr [\<lparr>e_fieldId = f_id ?age, e_message = f_label ?age @ '' is required''\<rparr>]"
    and str0: "validateField ex_host ex_heap ?age (JStr ''0'')
               = Inr (validateNumber ex_host (objs ex_heap (f_properties ?age)) ?age (JStr ''0''))"
    by simp_all
  have bounds: "validateNumber ex_host (objs ex_heap (f_properties ?age)) ?age (JStr ''0'') = []"
    by (simp add: validateNumber_def ex_heap_def mk_field_def zero_is_0 no_properties_def num_gt_def)
  show ?thesis using req zero str0 bounds by (simp add: mk_field_def)
qed

text \<open>
  C4, as the code has it. For every field and every value that is \<open>undefined\<close>, \<open>null\<close>
  or the empty string: a required field gets exactly one "required" error and no other
  check runs (the call cannot throw either); a field that is not required gets no error.
  The empty array is not among these values: an array is truthy in JavaScript, and the
  code has no other test for it.
\<close>

theorem required_empty_rule:
  assumes "v = JUndefined \<or> v = JNull \<or> v = JStr []"
  shows "validateField host h field v
         = Inr (if f_required field
                then [\<lparr>e_fieldId = f_id field, e_message = f_label field @ '' is required''\<rparr>]
                else [])"
  using assms by (auto simp add: validateField_def empty_value_def err_def)

theorem required_empty_rule_witness:
  "validateField ex_host ex_heap ex_A JNull = Inr [\<lparr>e_fieldId = ''a'', e_message = ''A is required''\<rparr>]
   \<and> validateField ex_host ex_heap ex_B (JStr []) = Inr []"
  using required_empty_rule [of JNull ex_host ex_heap ex_A]
        required_empty_rule [of "JStr []" ex_host ex_heap ex_B]
  by (simp add: ex_A_def ex_B_def mk_field_def)

text \<open>
  C4 as stated fails on the empty array. A required multi-select dropdown answered with
  \<open>[]\<close> gets no error at all, and a single-select dropdown that is not required gets the
  single-selection error for \<open>[]\<close>.
\<close>

theorem empty_array_counterexample:
  "f_required (mk_field ''d'' dropdown ''D'' True 1 0)
   \<and> validateField ex_host ex_heap (mk_field ''d'' dropdown ''D'' True 1 0) (JArr []) = Inr []
   \<and> \<not> f_required (mk_field ''e'' dropdown ''E'' False 3 0)
   \<and> validateField ex_host ex_heap (mk_field ''e'' dropdown ''E'' False 3 0) (JArr [])
       = Inr [\<lparr>e_fieldId = ''e'', e_message = ''E allows only single selection''\<rparr>]"
  by (simp add: validateField_def empty_value_def mk_field_def ex_heap_def validateDropdown_def err_def)

section \<open>Validation of a form\<close>

lemma sections_tempSchema:
  "sections (tempSchema schema)
   = [\<lparr>s_id = ''temp'', s_title = ''Form'', s_description = Some [],
       s_fields = getAllFields (items schema), s_order = 0\<rparr>]"
  by (simp add: tempSchema_def FormSchema.defs TempSchema.defs)

text \<open>The loop over fields: it throws when one field's validation throws, and otherwise
  appends the fields' errors in the order of the list.\<close>

lemma validateFields_eq:
  "validateFields host h vals fs acc
   = (if list_ex isl (map (\<lambda>f. validateField host h f (lookup vals (f_id f))) fs)
      then Inl SyntaxError
      else Inr (acc @ concat (map (\<lambda>f. projr (validateField host h f (lookup vals (f_id f)))) fs)))"
proof (induction fs arbitrary: acc)
  case Nil
  then show ?case by simp
next
  case (Cons f fs)
  show ?case
  proof (cases "validateField host h f (lookup vals (f_id f))")
    case (Inl e)
    then show ?thesis by (simp add: validateField_error [OF Inl])
  next
    case (Inr es)
    then show ?thesis by (simp add: Cons.IH)
  qed
qed

lemma validateForm_tempSchema:
  "validateForm host h (tempSchema schema) vals
   = (if list_ex isl (map (\<lambda>f. validateField host h f (lookup vals (f_id f))) (getAllFields (items schema)))
      then Inl SyntaxError
      else Inr \<lparr>isValid = (concat (map (\<lambda>f. projr (validateField host h f (lookup vals (f_id f))))
                                     (getAllFields (items schema))) = []),
                errors = concat (map (\<lambda>f. projr (validateField host h f (lookup vals (f_id f))))
                                     (getAllFields (items schema)))\<rparr>)"
  by (simp add: validateForm_def sections_tempSchema validateFields_eq)

text \<open>
  C5. Validation on submit, \<open>validateForm\<close> on the temporary schema of \<open>handleSubmit\<close>,
  either throws (a field's pattern is not a regular expression) or returns the errors of
  the fields in document order: the concatenation, over \<open>getAllFields\<close> of the items, of
  each field's own errors; \<open>isValid\<close> holds exactly when that list is empty. On the
  schema with the required field A, then a section holding B (not required) and the number
  field C, with no answer for A and B and the answer \<open>abc\<close> for C, the result is exactly
  the two errors of A and C, in this order.
\<close>

theorem validation_order:
  "validateForm host h (tempSchema schema) vals
   = (if list_ex isl (map (\<lambda>f. validateField host h f (lookup vals (f_id f))) (getAllFields (items schema)))
      then Inl SyntaxError
      else Inr \<lparr>isValid = (concat (map (\<lambda>f. projr (validateField host h f (lookup vals (f_id f))))
                                     (getAllFields (items schema))) = []),
                errors = concat (map (\<lambda>f. projr (validateField host h f (lookup vals (f_id f))))
                                     (getAllFields (items schema)))\<rparr>)
   \<and> validateForm host h
        (tempSchema (mk_schema [FieldItem ex_A, SectionItem (mk_section ''s'' [ex_B, ex_C] 1)])) ex_answers
       = Inr \<lparr>isValid = False,
              errors = [\<lparr>e_fieldId = ''a'', e_message = ''A is required''\<rparr>,
                        \<lparr>e_fieldId = ''c'', e_message = ''C must be a valid number''\<rparr>]\<rparr>"
proof
  show "validateForm host h (tempSchema schema) vals
   = (if list_ex isl (map (\<lambda>f. validateField host h f (lookup vals (f_id f))) (getAllFields (items schema)))
      then Inl SyntaxError
      else Inr \<lparr>isValid = (concat (map (\<lambda>f. projr (validateField host h f (lookup vals (f_id f))))
                                     (getAllFields (items schema))) = []),
                errors = concat (map (\<lambda>f. projr (validateField host h f (lookup vals (f_id f))))
                                     (getAllFields (items schema)))\<rparr>)"
    by (rule validateForm_tempSchema)
  show "validateForm host h
        (tempSchema (mk_schema [FieldItem ex_A, SectionItem (mk_section ''s'' [ex_B, ex_C] 1)])) ex_answers
       = Inr \<lparr>isValid = False,
              errors = [\<lparr>e_fieldId = ''a'', e_message = ''A is required''\<rparr>,
                        \<lparr>e_fieldId = ''c'', e_message = ''C must be a valid number''\<rparr>]\<rparr>"
    by (simp add: validateForm_tempSchema mk_schema_def mk_section_def ex_A_def ex_B_def ex_C_def
        mk_field_def ex_answers_def lookup_def validateField_def empty_value_def err_def
        validateNumber_def abc_is_NaN trim_abc)
qed

text \<open>
  C10. A form whose submit button is enabled need not validate: for the schema with the
  single required short-text field \<open>Name\<close> and the answer \<open>" "\<close> (one space), \<open>canSubmit\<close>
  is true, since the answer is neither \<open>undefined\<close>, \<open>null\<close> nor \<open>""\<close>, and validation
  fails with the "required" error, since the answer trims to the empty string.
\<close>

theorem submit_enabled_not_valid:
  "\<exists>schema vals.
     canSubmit schema vals
     \<and> validateForm host h (tempSchema schema) vals
         = Inr \<lparr>isValid = False, errors = [\<lparr>e_fieldId = ''name'', e_message = ''Name is required''\<rparr>]\<rparr>"
proof (intro exI conjI)
  show "canSubmit ex_blank_schema ex_blank_answers"
    by (simp add: canSubmit_def ex_blank_schema_def ex_blank_answers_def mk_schema_def mk_field_def lookup_def)
  show "validateForm host h (tempSchema ex_blank_schema) ex_blank_answers
        = Inr \<lparr>isValid = False, errors = [\<lparr>e_fieldId = ''name'', e_message = ''Name is required''\<rparr>]\<rparr>"
    by (simp add: validateForm_tempSchema ex_blank_schema_def ex_blank_answers_def mk_schema_def
        mk_field_def lookup_def validateField_def empty_value_def trim_space err_def)
qed

section \<open>Auto-filled fields\<close>




lemma field_control_error:
  "field_control host h fieldValue field disabled = Inl e \<Longrightarrow> e = RangeError"
  by (auto simp add: field_control_def split: if_splits FieldType.splits)










section \<open>Drop position\<close>






section \<open>Searching a list\<close>

lemma findIndex_lower: "-1 \<le> findIndex P xs"
  by (induction xs) (auto simp add: Let_def)

lemma findIndex_none: "(\<forall>x \<in> set xs. \<not> P x) \<Longrightarrow> findIndex P xs = -1"
  by (induction xs) (auto simp add: Let_def)

lemma findIndex_neg_iff: "findIndex P xs < 0 \<longleftrightarrow> (\<forall>x \<in> set xs. \<not> P x)"
  using findIndex_lower [of P] by (induction xs) (auto simp add: Let_def)

lemma findIndex_first:
  assumes "k < length xs" and "P (xs ! k)" and "\<forall>j < k. \<not> P (xs ! j)"
  shows "findIndex P xs = int k"
  using assms
proof (induction xs arbitrary: k)
  case Nil
  then show ?case by simp
next
  case (Cons x xs)
  show ?case
  proof (cases k)
    case 0
    with Cons.prems show ?thesis by simp
  next
    case (Suc k')
    from Cons.prems Suc have nx: "\<not> P x" by auto
    from Cons.prems Suc have "k' < length xs" "P (xs ! k')" "\<forall>j < k'. \<not> P (xs ! j)" by auto
    from Cons.IH [OF this] nx Suc show ?thesis by (simp add: Let_def)
  qed
qed

lemma findIndex_found:
  assumes "0 \<le> findIndex P xs"
  shows "nat (findIndex P xs) < length xs \<and> P (xs ! nat (findIndex P xs))
         \<and> (\<forall>j < nat (findIndex P xs). \<not> P (xs ! j))"
  using assms
proof (induction xs)
  case Nil
  then show ?case by simp
next
  case (Cons x xs)
  show ?case
  proof (cases "P x")
    case True
    then show ?thesis by simp
  next
    case False
    with Cons.prems have ge: "0 \<le> findIndex P xs" by (simp add: Let_def split: if_splits)
    from Cons.IH [OF ge] have ih: "nat (findIndex P xs) < length xs" "P (xs ! nat (findIndex P xs))"
      "\<forall>j < nat (findIndex P xs). \<not> P (xs ! j)" by auto
    have eq: "findIndex P (x # xs) = findIndex P xs + 1" using False ge by (simp add: Let_def)
    have n: "nat (findIndex P xs + 1) = Suc (nat (findIndex P xs))" using ge by simp
    show ?thesis
      unfolding eq n using ih False by (auto simp add: nth_Cons split: nat.splits)
  qed
qed

section \<open>Updating a field\<close>

lemma not_holds_section:
  "\<not> holds_field fid (SectionItem s) \<Longrightarrow> findIndex (\<lambda>f. f_id f = fid) (s_fields s) = -1"
  by (rule findIndex_none) (auto simp add: list_ex_iff)

lemma updateLoop_absent:
  "(\<forall>it \<in> set its. \<not> holds_field fid it) \<Longrightarrow> updateLoop fid u its = its"
proof (induction its)
  case Nil
  then show ?case by simp
next
  case (Cons it its)
  then show ?case by (cases it) (auto simp add: not_holds_section)
qed

lemma updateLoop_skip:
  "\<not> holds_field fid it \<Longrightarrow> updateLoop fid u (it # rest) = it # updateLoop fid u rest"
  by (cases it) (auto simp add: not_holds_section)

lemma updateLoop_root:
  assumes "i < length its" and "its ! i = FieldItem f" and "f_id f = fid"
      and "\<forall>j < i. \<not> holds_field fid (its ! j)"
  shows "updateLoop fid u its = its[i := FieldItem (assign f u)]"
  using assms
proof (induction its arbitrary: i)
  case Nil
  then show ?case by simp
next
  case (Cons it its)
  show ?case
  proof (cases i)
    case 0
    with Cons.prems show ?thesis by simp
  next
    case (Suc i')
    from Cons.prems Suc have nh: "\<not> holds_field fid it" by auto
    from Cons.prems Suc have "i' < length its" "its ! i' = FieldItem f"
      "\<forall>j < i'. \<not> holds_field fid (its ! j)" by auto
    from Cons.IH [OF this(1,2) Cons.prems(3) this(3)] Suc show ?thesis
      by (simp add: updateLoop_skip [OF nh])
  qed
qed

lemma updateLoop_section:
  assumes "i < length its" and "its ! i = SectionItem s"
      and "k < length (s_fields s)" and "f_id (s_fields s ! k) = fid"
      and "\<forall>k' < k. f_id (s_fields s ! k') \<noteq> fid"
      and "\<forall>j < i. \<not> holds_field fid (its ! j)"
  shows "updateLoop fid u its
         = its[i := SectionItem (s\<lparr>s_fields := (s_fields s)[k := assign (s_fields s ! k) u]\<rparr>)]"
  using assms(1,2,6)
proof (induction its arbitrary: i)
  case Nil
  then show ?case by simp
next
  case (Cons it its)
  show ?case
  proof (cases i)
    case 0
    have "findIndex (\<lambda>f. f_id f = fid) (s_fields s) = int k"
      using assms(3,4,5) by (intro findIndex_first) auto
    with Cons.prems 0 show ?thesis by simp
  next
    case (Suc i')
    from Cons.prems Suc have nh: "\<not> holds_field fid it" by auto
    from Cons.prems Suc have "i' < length its" "its ! i' = SectionItem s"
      "\<forall>j < i'. \<not> holds_field fid (its ! j)" by auto
    from Cons.IH [OF this] Suc show ?thesis
      by (simp add: updateLoop_skip [OF nh])
  qed
qed

lemma handleUpdateField_items:
  "handleUpdateField fid u c = set_items (updateLoop fid u (items (cv_schema c))) c"
  by (simp add: handleUpdateField_def)

text \<open>
  C7, as the code has it. Let item \<open>i\<close> be the first item that holds the field id: the
  root field with that id, or a section whose first field with that id is at \<open>k\<close>. Then
  \<open>handleUpdateField\<close> replaces that one field by its merge with the update and changes
  nothing else: every other item, every other field of the section, the section's own
  keys, the rest of the schema and the rest of the canvas state stay as they are. The
  merge is \<open>Object.assign\<close>: it writes every key the update carries, \<open>id\<close> and \<open>order\<close>
  included. So the field's \<open>id\<close> and \<open>order\<close> are unchanged exactly when the update
  carries no such key, and are the update's values otherwise.
\<close>

theorem update_field_frame:
  assumes "i < length (items (cv_schema c))"
      and "\<forall>j < i. \<not> holds_field fid (items (cv_schema c) ! j)"
  shows "(\<forall>f. items (cv_schema c) ! i = FieldItem f \<and> f_id f = fid \<longrightarrow>
            handleUpdateField fid u c
            = set_items ((items (cv_schema c))[i := FieldItem (assign f u)]) c)
       \<and> (\<forall>s k. items (cv_schema c) ! i = SectionItem s \<and> k < length (s_fields s)
                 \<and> f_id (s_fields s ! k) = fid \<and> (\<forall>k' < k. f_id (s_fields s ! k') \<noteq> fid) \<longrightarrow>
            handleUpdateField fid u c
            = set_items ((items (cv_schema c))
                [i := SectionItem (s\<lparr>s_fields := (s_fields s)[k := assign (s_fields s ! k) u]\<rparr>)]) c)
       \<and> f_id (assign g u) = (case u_id u of None \<Rightarrow> f_id g | Some x \<Rightarrow> x)
       \<and> f_order (assign g u) = (case u_order u of None \<Rightarrow> f_order g | Some n \<Rightarrow> n)"
proof (intro conjI allI impI)
  fix f
  assume "items (cv_schema c) ! i = FieldItem f \<and> f_id f = fid"
  then show "handleUpdateField fid u c
             = set_items ((items (cv_schema c))[i := FieldItem (assign f u)]) c"
    using assms by (simp add: handleUpdateField_items updateLoop_root)
next
  fix s k
  assume "items (cv_schema c) ! i = SectionItem s \<and> k < length (s_fields s)
          \<and> f_id (s_fields s ! k) = fid \<and> (\<forall>k' < k. f_id (s_fields s ! k') \<noteq> fid)"
  then have "updateLoop fid u (items (cv_schema c))
             = (items (cv_schema c))
                 [i := SectionItem (s\<lparr>s_fields := (s_fields s)[k := assign (s_fields s ! k) u]\<rparr>)]"
    using assms by (intro updateLoop_section) auto
  then show "handleUpdateField fid u c
             = set_items ((items (cv_schema c))
                 [i := SectionItem (s\<lparr>s_fields := (s_fields s)[k := assign (s_fields s ! k) u]\<rparr>)]) c"
    by (simp add: handleUpdateField_items)
next
  show "f_id (assign g u) = (case u_id u of None \<Rightarrow> f_id g | Some x \<Rightarrow> x)"
    by (simp add: assign_def split: option.splits)
  show "f_order (assign g u) = (case u_order u of None \<Rightarrow> f_order g | Some n \<Rightarrow> n)"
    by (simp add: assign_def split: option.splits)
qed

theorem update_field_frame_witness:
  "(1::nat) < length (items (cv_schema ex_canvas))
   \<and> \<not> holds_field ''c'' (items (cv_schema ex_canvas) ! 0)
   \<and> items (cv_schema ex_canvas) ! 1 = SectionItem (mk_section ''s'' [ex_B, ex_C] 1)
   \<and> handleUpdateField ''c'' (no_updates\<lparr>u_label := Some ''Count''\<rparr>) ex_canvas
       = mk_canvas [FieldItem ex_A, SectionItem (mk_section ''s'' [ex_B, ex_C\<lparr>f_label := ''Count''\<rparr>] 1)]"
proof -
  have len: "(1::nat) < length (items (cv_schema ex_canvas))"
    by (simp add: ex_canvas_def mk_canvas_def mk_schema_def)
  have before: "\<forall>j < 1. \<not> holds_field ''c'' (items (cv_schema ex_canvas) ! j)"
    by (simp add: ex_canvas_def mk_canvas_def mk_schema_def ex_A_def mk_field_def)
  have at: "items (cv_schema ex_canvas) ! 1 = SectionItem (mk_section ''s'' [ex_B, ex_C] 1)"
    by (simp add: ex_canvas_def mk_canvas_def mk_schema_def)
  have inside: "(1::nat) < length (s_fields (mk_section ''s'' [ex_B, ex_C] 1))
                \<and> f_id (s_fields (mk_section ''s'' [ex_B, ex_C] 1) ! 1) = ''c''
                \<and> (\<forall>k' < 1. f_id (s_fields (mk_section ''s'' [ex_B, ex_C] 1) ! k') \<noteq> ''c'')"
    by (simp add: mk_section_def ex_B_def ex_C_def mk_field_def)
  from update_field_frame [OF len before, of "no_updates\<lparr>u_label := Some ''Count''\<rparr>" ex_C] at inside
  have "handleUpdateField ''c'' (no_updates\<lparr>u_label := Some ''Count''\<rparr>) ex_canvas
        = set_items ((items (cv_schema ex_canvas))
            [1 := SectionItem ((mk_section ''s'' [ex_B, ex_C] 1)
                  \<lparr>s_fields := (s_fields (mk_section ''s'' [ex_B, ex_C] 1))
                     [1 := assign (s_fields (mk_section ''s'' [ex_B, ex_C] 1) ! 1)
                             (no_updates\<lparr>u_label := Some ''Count''\<rparr>)]\<rparr>)]) ex_canvas"
    by blast
  also have "\<dots> = mk_canvas [FieldItem ex_A, SectionItem (mk_section ''s'' [ex_B, ex_C\<lparr>f_label := ''Count''\<rparr>] 1)]"
    by (simp add: ex_canvas_def mk_canvas_def mk_schema_def mk_section_def ex_C_def mk_field_def
        set_items_def assign_def no_updates_def)
  finally show ?thesis using len before at by simp
qed

text \<open>
  C7 as stated fails: an update that carries \<open>id\<close> and \<open>order\<close> overwrites both.
\<close>

theorem update_id_order_counterexample:
  "map f_id (getAllFields (items (cv_schema (mk_canvas [FieldItem ex_A])))) = [''a'']
   \<and> map f_order (getAllFields (items (cv_schema (mk_canvas [FieldItem ex_A])))) = [0]
   \<and> map f_id (getAllFields (items (cv_schema
        (handleUpdateField ''a'' (no_updates\<lparr>u_id := Some ''z'', u_order := Some 7\<rparr>) (mk_canvas [FieldItem ex_A])))))
      = [''z'']
   \<and> map f_order (getAllFields (items (cv_schema
        (handleUpdateField ''a'' (no_updates\<lparr>u_id := Some ''z'', u_order := Some 7\<rparr>) (mk_canvas [FieldItem ex_A])))))
      = [7]"
  by (simp add: handleUpdateField_def mk_canvas_def mk_schema_def ex_A_def mk_field_def set_items_def
      assign_def no_updates_def)

section \<open>Cloning a field\<close>

lemma length_renumberFields: "length (renumberFields fs) = length fs"
  by (simp add: renumberFields_def)

lemma nth_renumberFields:
  "j < length fs \<Longrightarrow> renumberFields fs ! j = (fs ! j)\<lparr>f_order := int j\<rparr>"
  by (simp add: renumberFields_def nth_enumerate_eq)

lemma fields_dense_renumberFields: "fields_dense (renumberFields fs)"
  unfolding fields_dense_def
  by (rule nth_equalityI) (simp_all add: length_renumberFields nth_renumberFields)

lemma splice_insert_after:
  "k < length xs \<Longrightarrow> splice_insert (int k + 1) x xs = take (Suc k) xs @ x # drop (Suc k) xs"
  by (simp add: splice_insert_def splice_start_def Let_def nat_add_distrib min_def)

lemma cloneLoop_skip:
  "\<not> holds_field fid it \<Longrightarrow>
     cloneLoop fid new_id n (it # rest) = it # cloneLoop fid new_id (Suc n) rest"
  by (cases it) (auto simp add: not_holds_section)

lemma cloneLoop_root:
  assumes "i < length its" and "its ! i = FieldItem f" and "f_id f = fid"
      and "\<forall>j < i. \<not> holds_field fid (its ! j)"
  shows "cloneLoop fid new_id n its
         = take (Suc i) its @ FieldItem (clone_of f new_id (n + i)) # drop (Suc i) its"
  using assms(1,2,4)
proof (induction its arbitrary: i n)
  case Nil
  then show ?case by simp
next
  case (Cons it its)
  show ?case
  proof (cases i)
    case 0
    with Cons.prems assms(3) show ?thesis by simp
  next
    case (Suc i')
    from Cons.prems Suc have nh: "\<not> holds_field fid it" by auto
    from Cons.prems Suc have "i' < length its" "its ! i' = FieldItem f"
      "\<forall>j < i'. \<not> holds_field fid (its ! j)" by auto
    from Cons.IH [OF this, of "Suc n"] Suc show ?thesis
      by (simp add: cloneLoop_skip [OF nh])
  qed
qed

lemma cloneLoop_section:
  assumes "i < length its" and "its ! i = SectionItem s"
      and "k < length (s_fields s)" and "f_id (s_fields s ! k) = fid"
      and "\<forall>k' < k. f_id (s_fields s ! k') \<noteq> fid"
      and "\<forall>j < i. \<not> holds_field fid (its ! j)"
  shows "cloneLoop fid new_id n its
         = its[i := SectionItem
                 (s\<lparr>s_fields := renumberFields
                      (take (Suc k) (s_fields s) @ clone_of (s_fields s ! k) new_id k
                         # drop (Suc k) (s_fields s))\<rparr>)]"
  using assms(1,2,6)
proof (induction its arbitrary: i n)
  case Nil
  then show ?case by simp
next
  case (Cons it its)
  show ?case
  proof (cases i)
    case 0
    have "findIndex (\<lambda>f. f_id f = fid) (s_fields s) = int k"
      using assms(3,4,5) by (intro findIndex_first) auto
    with Cons.prems 0 assms(3) show ?thesis by (simp add: splice_insert_after)
  next
    case (Suc i')
    from Cons.prems Suc have nh: "\<not> holds_field fid it" by auto
    from Cons.prems Suc have "i' < length its" "its ! i' = SectionItem s"
      "\<forall>j < i'. \<not> holds_field fid (its ! j)" by auto
    from Cons.IH [OF this, of "Suc n"] Suc show ?thesis
      by (simp add: cloneLoop_skip [OF nh])
  qed
qed

lemma all_ids_append: "all_ids (xs @ ys) = all_ids xs @ all_ids ys"
  by (simp add: all_ids_def)

lemma all_ids_Cons: "all_ids (x # xs) = item_ids x @ all_ids xs"
  by (simp add: all_ids_def)

lemma distinct_insert_mid:
  "distinct (xs @ n # ys) \<longleftrightarrow> distinct (xs @ ys) \<and> n \<notin> set (xs @ ys)"
  by auto

lemma ids_renumberFields: "map f_id (renumberFields fs) = map f_id fs"
  by (rule nth_equalityI) (simp_all add: length_renumberFields nth_renumberFields)

lemma items_set_items: "items (cv_schema (set_items its c)) = its"
  by (simp add: set_items_def)

text \<open>Cloning puts the new id into the list of ids, and nothing else.\<close>

lemma clone_ids_root:
  assumes "i < length its" and "its ! i = FieldItem f" and "f_id f = fid"
      and "\<forall>j < i. \<not> holds_field fid (its ! j)"
  shows "all_ids (cloneLoop fid new_id 0 its)
         = all_ids (take (Suc i) its) @ new_id # all_ids (drop (Suc i) its)"
  using cloneLoop_root [OF assms, of new_id 0]
  by (simp add: all_ids_append all_ids_Cons clone_of_def)

lemma clone_ids_section:
  assumes "i < length its" and "its ! i = SectionItem s"
      and "k < length (s_fields s)" and "f_id (s_fields s ! k) = fid"
      and "\<forall>k' < k. f_id (s_fields s ! k') \<noteq> fid"
      and "\<forall>j < i. \<not> holds_field fid (its ! j)"
  shows "all_ids (cloneLoop fid new_id 0 its)
         = (all_ids (take i its) @ s_id s # map f_id (take (Suc k) (s_fields s)))
           @ new_id # (map f_id (drop (Suc k) (s_fields s)) @ all_ids (drop (Suc i) its))
       \<and> all_ids its
         = (all_ids (take i its) @ s_id s # map f_id (take (Suc k) (s_fields s)))
           @ (map f_id (drop (Suc k) (s_fields s)) @ all_ids (drop (Suc i) its))"
proof -
  have split: "its = take i its @ SectionItem s # drop (Suc i) its"
    using id_take_nth_drop [OF assms(1)] assms(2) by simp
  have fs: "map f_id (s_fields s)
            = map f_id (take (Suc k) (s_fields s)) @ map f_id (drop (Suc k) (s_fields s))"
    by (simp flip: map_append)
  have old: "all_ids its
         = (all_ids (take i its) @ s_id s # map f_id (take (Suc k) (s_fields s)))
           @ (map f_id (drop (Suc k) (s_fields s)) @ all_ids (drop (Suc i) its))"
    by (subst split) (simp add: all_ids_append all_ids_Cons fs)
  have new: "all_ids (cloneLoop fid new_id 0 its)
         = (all_ids (take i its) @ s_id s # map f_id (take (Suc k) (s_fields s)))
           @ new_id # (map f_id (drop (Suc k) (s_fields s)) @ all_ids (drop (Suc i) its))"
    using assms(1)
    by (simp add: cloneLoop_section [OF assms, of new_id 0] upd_conv_take_nth_drop
        all_ids_append all_ids_Cons ids_renumberFields clone_of_def)
  from new old show ?thesis by simp
qed

lemma clone_ids_distinct:
  assumes "i < length its" and "\<forall>j < i. \<not> holds_field fid (its ! j)"
      and "holds_field fid (its ! i)"
  shows "distinct (all_ids (cloneLoop fid new_id 0 its))
         \<longleftrightarrow> distinct (all_ids its) \<and> new_id \<notin> set (all_ids its)"
proof (cases "its ! i")
  case (FieldItem f)
  with assms(3) have id: "f_id f = fid" by simp
  have old: "all_ids its = all_ids (take (Suc i) its) @ all_ids (drop (Suc i) its)"
    by (simp flip: all_ids_append)
  note new = clone_ids_root [OF assms(1) FieldItem id assms(2), of new_id]
  have "distinct (all_ids (take (Suc i) its) @ new_id # all_ids (drop (Suc i) its))
        \<longleftrightarrow> distinct (all_ids (take (Suc i) its) @ all_ids (drop (Suc i) its))
            \<and> new_id \<notin> set (all_ids (take (Suc i) its) @ all_ids (drop (Suc i) its))"
    by (rule distinct_insert_mid)
  then show ?thesis by (simp only: new old [symmetric])
next
  case (SectionItem s)
  with assms(3) have ge: "0 \<le> findIndex (\<lambda>f. f_id f = fid) (s_fields s)"
    using findIndex_neg_iff [of "\<lambda>f. f_id f = fid" "s_fields s"] by (auto simp add: list_ex_iff)
  define k where "k = nat (findIndex (\<lambda>f. f_id f = fid) (s_fields s))"
  from findIndex_found [OF ge] have k: "k < length (s_fields s)" "f_id (s_fields s ! k) = fid"
    "\<forall>k' < k. f_id (s_fields s ! k') \<noteq> fid"
    by (simp_all add: k_def)
  note ids = clone_ids_section [OF assms(1) SectionItem k assms(2), of new_id]
  let ?before = "all_ids (take i its) @ s_id s # map f_id (take (Suc k) (s_fields s))"
  let ?after = "map f_id (drop (Suc k) (s_fields s)) @ all_ids (drop (Suc i) its)"
  from ids have new: "all_ids (cloneLoop fid new_id 0 its) = ?before @ new_id # ?after"
    and old: "all_ids its = ?before @ ?after" by simp_all
  have "distinct (?before @ new_id # ?after)
        \<longleftrightarrow> distinct (?before @ ?after) \<and> new_id \<notin> set (?before @ ?after)"
    by (rule distinct_insert_mid)
  then show ?thesis by (simp only: new old [symmetric])
qed

text \<open>
  C2, as the code has it. Let item \<open>i\<close> be the first item that holds the field id and
  \<open>new_id\<close> the string that \<open>generateId()\<close> returns, a random draw that the code does
  not compare with the ids in use.

  If item \<open>i\<close> is the root field \<open>f\<close>, the items afterwards are the old ones with the
  clone inserted right behind \<open>f\<close>; the clone is \<open>f\<close> with the new id, the label
  \<open>f.label + " (Copy)"\<close> and the order \<open>i + 1\<close>. If item \<open>i\<close> is a section whose first
  field with the id is \<open>f\<close> at position \<open>k\<close>, only that section's fields change: the
  clone stands at \<open>k + 1\<close> right behind \<open>f\<close>, and every field of the section has its
  index as order. In both cases every other key of the clone is \<open>f\<close>'s; in particular
  \<open>properties\<close> is the same reference, so the two fields share one property object.

  In both cases the ids of the schema afterwards are the old ones and the clone's. So
  the clone's id differs from every existing id, and the ids stay unique, exactly when
  the generated string is not in use.
\<close>

theorem clone_field:
  assumes "i < length (items (cv_schema c))"
      and "\<forall>j < i. \<not> holds_field fid (items (cv_schema c) ! j)"
  shows "(\<forall>f. items (cv_schema c) ! i = FieldItem f \<and> f_id f = fid \<longrightarrow>
            handleCloneField fid new_id c
            = set_items
                (take (Suc i) (items (cv_schema c))
                 @ FieldItem (f\<lparr>f_id := new_id, f_label := f_label f @ '' (Copy)'', f_order := int i + 1\<rparr>)
                 # drop (Suc i) (items (cv_schema c))) c)
       \<and> (\<forall>s k. items (cv_schema c) ! i = SectionItem s \<and> k < length (s_fields s)
                 \<and> f_id (s_fields s ! k) = fid \<and> (\<forall>k' < k. f_id (s_fields s ! k') \<noteq> fid) \<longrightarrow>
            (let fs = s_fields s;
                 f = fs ! k;
                 fs' = renumberFields
                         (take (Suc k) fs
                          @ f\<lparr>f_id := new_id, f_label := f_label f @ '' (Copy)'', f_order := int k + 1\<rparr>
                          # drop (Suc k) fs)
             in handleCloneField fid new_id c
                  = set_items ((items (cv_schema c))[i := SectionItem (s\<lparr>s_fields := fs'\<rparr>)]) c
                \<and> fields_dense fs'
                \<and> length fs' = Suc (length fs)
                \<and> fs' ! k = f\<lparr>f_order := int k\<rparr>
                \<and> fs' ! Suc k = f\<lparr>f_id := new_id, f_label := f_label f @ '' (Copy)'', f_order := int k + 1\<rparr>))
       \<and> (holds_field fid (items (cv_schema c) ! i) \<longrightarrow>
            (distinct (all_ids (items (cv_schema (handleCloneField fid new_id c))))
             \<longleftrightarrow> distinct (all_ids (items (cv_schema c)))
                 \<and> new_id \<notin> set (all_ids (items (cv_schema c)))))"
proof (intro conjI allI impI)
  assume "holds_field fid (items (cv_schema c) ! i)"
  from clone_ids_distinct [OF assms this, of new_id]
  show "distinct (all_ids (items (cv_schema (handleCloneField fid new_id c))))
        \<longleftrightarrow> distinct (all_ids (items (cv_schema c)))
            \<and> new_id \<notin> set (all_ids (items (cv_schema c)))"
    by (simp add: handleCloneField_def items_set_items)
next
  fix f
  assume "items (cv_schema c) ! i = FieldItem f \<and> f_id f = fid"
  then have "cloneLoop fid new_id 0 (items (cv_schema c))
             = take (Suc i) (items (cv_schema c)) @ FieldItem (clone_of f new_id (0 + i))
                 # drop (Suc i) (items (cv_schema c))"
    using assms by (intro cloneLoop_root) auto
  then show "handleCloneField fid new_id c
            = set_items
                (take (Suc i) (items (cv_schema c))
                 @ FieldItem (f\<lparr>f_id := new_id, f_label := f_label f @ '' (Copy)'', f_order := int i + 1\<rparr>)
                 # drop (Suc i) (items (cv_schema c))) c"
    by (simp add: handleCloneField_def clone_of_def)
next
  fix s k
  assume a: "items (cv_schema c) ! i = SectionItem s \<and> k < length (s_fields s)
          \<and> f_id (s_fields s ! k) = fid \<and> (\<forall>k' < k. f_id (s_fields s ! k') \<noteq> fid)"
  define fs where "fs = s_fields s"
  define f where "f = fs ! k"
  define g where "g = f\<lparr>f_id := new_id, f_label := f_label f @ '' (Copy)'', f_order := int k + 1\<rparr>"
  define fs' where "fs' = renumberFields (take (Suc k) fs @ g # drop (Suc k) fs)"
  from a have k: "k < length fs" by (simp add: fs_def)
  have loop: "cloneLoop fid new_id 0 (items (cv_schema c))
        = (items (cv_schema c))[i := SectionItem
                 (s\<lparr>s_fields := renumberFields
                      (take (Suc k) (s_fields s) @ clone_of (s_fields s ! k) new_id k
                         # drop (Suc k) (s_fields s))\<rparr>)]"
    using assms a by (intro cloneLoop_section) auto
  have 1: "handleCloneField fid new_id c
           = set_items ((items (cv_schema c))[i := SectionItem (s\<lparr>s_fields := fs'\<rparr>)]) c"
    using loop by (simp add: handleCloneField_def clone_of_def fs'_def g_def f_def fs_def)
  have 2: "fields_dense fs'" by (simp add: fs'_def fields_dense_renumberFields)
  have len: "length (take (Suc k) fs @ g # drop (Suc k) fs) = Suc (length fs)" using k by simp
  have 3: "length fs' = Suc (length fs)" using len by (simp add: fs'_def length_renumberFields)
  have 4: "fs' ! k = f\<lparr>f_order := int k\<rparr>"
    using k len by (simp add: fs'_def nth_renumberFields nth_append f_def)
  have 5: "fs' ! Suc k = g\<lparr>f_order := int k + 1\<rparr>"
    using k len by (simp add: fs'_def nth_renumberFields nth_append min_def)
  have 6: "g\<lparr>f_order := int k + 1\<rparr> = g" by (simp add: g_def)
  show "(let fs = s_fields s;
                 f = fs ! k;
                 fs' = renumberFields
                         (take (Suc k) fs
                          @ f\<lparr>f_id := new_id, f_label := f_label f @ '' (Copy)'', f_order := int k + 1\<rparr>
                          # drop (Suc k) fs)
             in handleCloneField fid new_id c
                  = set_items ((items (cv_schema c))[i := SectionItem (s\<lparr>s_fields := fs'\<rparr>)]) c
                \<and> fields_dense fs'
                \<and> length fs' = Suc (length fs)
                \<and> fs' ! k = f\<lparr>f_order := int k\<rparr>
                \<and> fs' ! Suc k = f\<lparr>f_id := new_id, f_label := f_label f @ '' (Copy)'', f_order := int k + 1\<rparr>)"
    unfolding Let_def
    using 1 2 3 4 5 6 unfolding fs'_def g_def f_def fs_def by simp
qed

theorem clone_field_witness:
  "(1::nat) < length (items (cv_schema ex_canvas))
   \<and> \<not> holds_field ''b'' (items (cv_schema ex_canvas) ! 0)
   \<and> items (cv_schema ex_canvas) ! 1 = SectionItem (mk_section ''s'' [ex_B, ex_C] 1)
   \<and> handleCloneField ''b'' ''n'' ex_canvas
       = mk_canvas
           [FieldItem ex_A,
            SectionItem (mk_section ''s''
              [ex_B\<lparr>f_order := 0\<rparr>, ex_B\<lparr>f_id := ''n'', f_label := ''B (Copy)'', f_order := 1\<rparr>, ex_C] 1)]
   \<and> all_ids (items (cv_schema ex_canvas)) = [''a'', ''s'', ''b'', ''c'']
   \<and> distinct (all_ids (items (cv_schema (handleCloneField ''b'' ''n'' ex_canvas))))"
proof -
  have ids: "all_ids (items (cv_schema ex_canvas)) = [''a'', ''s'', ''b'', ''c'']"
    by (simp add: ex_canvas_def mk_canvas_def mk_schema_def mk_section_def ex_A_def ex_B_def ex_C_def
        mk_field_def all_ids_def)
  have holds: "holds_field ''b'' (items (cv_schema ex_canvas) ! 1)"
    by (simp add: ex_canvas_def mk_canvas_def mk_schema_def mk_section_def ex_B_def mk_field_def)
  have len: "(1::nat) < length (items (cv_schema ex_canvas))"
    by (simp add: ex_canvas_def mk_canvas_def mk_schema_def)
  have before: "\<forall>j < 1. \<not> holds_field ''b'' (items (cv_schema ex_canvas) ! j)"
    by (simp add: ex_canvas_def mk_canvas_def mk_schema_def ex_A_def mk_field_def)
  have at: "items (cv_schema ex_canvas) ! 1 = SectionItem (mk_section ''s'' [ex_B, ex_C] 1)"
    by (simp add: ex_canvas_def mk_canvas_def mk_schema_def)
  have inside: "(0::nat) < length (s_fields (mk_section ''s'' [ex_B, ex_C] 1))
                \<and> f_id (s_fields (mk_section ''s'' [ex_B, ex_C] 1) ! 0) = ''b''
                \<and> (\<forall>k' < 0. f_id (s_fields (mk_section ''s'' [ex_B, ex_C] 1) ! k') \<noteq> ''b'')"
    by (simp add: mk_section_def ex_B_def mk_field_def)
  from clone_field [OF len before, of "''n''"] at inside
  have "handleCloneField ''b'' ''n'' ex_canvas
        = set_items ((items (cv_schema ex_canvas))
            [1 := SectionItem ((mk_section ''s'' [ex_B, ex_C] 1)
                  \<lparr>s_fields := renumberFields
                     (take (Suc 0) (s_fields (mk_section ''s'' [ex_B, ex_C] 1))
                      @ (s_fields (mk_section ''s'' [ex_B, ex_C] 1) ! 0)
                          \<lparr>f_id := ''n'',
                           f_label := f_label (s_fields (mk_section ''s'' [ex_B, ex_C] 1) ! 0) @ '' (Copy)'',
                           f_order := int 0 + 1\<rparr>
                      # drop (Suc 0) (s_fields (mk_section ''s'' [ex_B, ex_C] 1)))\<rparr>)]) ex_canvas"
    unfolding Let_def by blast
  also have "\<dots> = mk_canvas
           [FieldItem ex_A,
            SectionItem (mk_section ''s''
              [ex_B\<lparr>f_order := 0\<rparr>, ex_B\<lparr>f_id := ''n'', f_label := ''B (Copy)'', f_order := 1\<rparr>, ex_C] 1)]"
    by (simp add: ex_canvas_def mk_canvas_def mk_schema_def mk_section_def ex_B_def ex_C_def mk_field_def
        set_items_def renumberFields_def)
  finally have result: "handleCloneField ''b'' ''n'' ex_canvas
       = mk_canvas
           [FieldItem ex_A,
            SectionItem (mk_section ''s''
              [ex_B\<lparr>f_order := 0\<rparr>, ex_B\<lparr>f_id := ''n'', f_label := ''B (Copy)'', f_order := 1\<rparr>, ex_C] 1)]" .
  from clone_field [OF len before, of "''n''"] holds
  have "distinct (all_ids (items (cv_schema (handleCloneField ''b'' ''n'' ex_canvas))))
        \<longleftrightarrow> distinct (all_ids (items (cv_schema ex_canvas)))
            \<and> ''n'' \<notin> set (all_ids (items (cv_schema ex_canvas)))"
    by blast
  then have unique: "distinct (all_ids (items (cv_schema (handleCloneField ''b'' ''n'' ex_canvas))))"
    by (simp add: ids)
  show ?thesis using len before at result ids unique by simp
qed

text \<open>
  C2 as stated fails twice. The clone's \<open>properties\<close> is not an independent copy:
  after cloning the number field C, an assignment to \<open>min\<close> through the clone's reference
  changes what the original's \<open>properties.min\<close> reads. And the clone's id need not differ
  from the existing ids: \<open>generateId()\<close> is \<open>Math.random().toString(36).substr(2, 9)\<close>
  with no look at the schema, and the draw 0.5 prints as \<open>0.i\<close>, so a field whose id
  \<open>i\<close> came from that draw gets a clone with the same id when the draw repeats.
\<close>

theorem clone_shares_properties_counterexample:
  "(let c' = handleCloneField ''c'' ''n'' (mk_canvas [FieldItem ex_C]);
        F = getAllFields (items (cv_schema c')) ! 0;
        F' = getAllFields (items (cv_schema c')) ! 1;
        h' = heap_write (f_properties F')
               ((objs (cv_heap c') (f_properties F'))\<lparr>p_min := Some (Fin 5)\<rparr>) (cv_heap c')
    in f_id F = ''c'' \<and> f_id F' = ''n''
       \<and> f_properties F' = f_properties F
       \<and> p_min (objs (cv_heap c') (f_properties F)) = Some (Fin 0)
       \<and> p_min (objs h' (f_properties F)) = Some (Fin 5))
   \<and> all_ids (items (cv_schema
         (handleCloneField ''i'' ''i'' (mk_canvas [FieldItem (mk_field ''i'' short_text ''Name'' False 0 0)]))))
       = [''i'', ''i'']"
  by (simp add: handleCloneField_def mk_canvas_def mk_schema_def ex_C_def mk_field_def set_items_def
      clone_of_def heap_write_def ex_heap_def Let_def all_ids_def)

section \<open>Order density and missing targets\<close>

text \<open>
  C1 fails on the code. Cloning the root field A of the dense items A, B inserts the
  clone behind A with order 1 and renumbers nothing: B keeps order 1 at index 2. (Inside a
  section the same handler renumbers the fields.) Likewise, moving the
  root field A into the section behind it leaves the section with order 1 at index 0:
  \<open>handleReorderField\<close> renumbers the source list only when it is a section.
\<close>

theorem clone_at_root_stale_order:
  "order_density [FieldItem ex_A, FieldItem ex_B]
   \<and> map item_id (items (cv_schema (handleCloneField ''a'' ''n'' (mk_canvas [FieldItem ex_A, FieldItem ex_B]))))
       = [''a'', ''n'', ''b'']
   \<and> map item_order (items (cv_schema (handleCloneField ''a'' ''n'' (mk_canvas [FieldItem ex_A, FieldItem ex_B]))))
       = [0, 1, 1]
   \<and> \<not> order_density (items (cv_schema (handleCloneField ''a'' ''n'' (mk_canvas [FieldItem ex_A, FieldItem ex_B]))))
   \<and> order_density [FieldItem ex_A, SectionItem ex_S]
   \<and> items (cv_schema (handleReorderField ''a'' (Some ''s'') (Some 0) (mk_canvas [FieldItem ex_A, SectionItem ex_S])))
       = [SectionItem (mk_section ''s'' [ex_A] 1)]
   \<and> \<not> order_density
         (items (cv_schema (handleReorderField ''a'' (Some ''s'') (Some 0) (mk_canvas [FieldItem ex_A, SectionItem ex_S]))))"
  by (simp add: order_density_def items_dense_def fields_dense_def handleCloneField_def handleReorderField_def
      mk_canvas_def mk_schema_def mk_section_def ex_A_def ex_B_def ex_S_def mk_field_def set_items_def
      clone_of_def insert_at_target_def is_section_with_id_def splice_insert_def splice_start_def
      renumberFields_def Let_def)

text \<open>
  C3 fails on the code. \<open>handleReorderField\<close> removes the field before it looks for the
  target section; when no section has the target id, nothing is inserted and the schema
  without the field is reported: the field is lost. (\<open>handleAddField\<close> makes the same
  lookup and leaves the items alone when it fails.) A second case: \<open>handleMoveSectionDown\<close>
  with an id that no section has reads \<open>findIndex\<close>'s \<open>-1\<close> as an index, so it moves the
  last item to the front.
\<close>

theorem move_to_missing_section_loses_field:
  "getAllFields (items (cv_schema (mk_canvas [FieldItem ex_A, SectionItem ex_S]))) = [ex_A]
   \<and> handleReorderField ''a'' (Some ''ghost'') (Some 0) (mk_canvas [FieldItem ex_A, SectionItem ex_S])
       = mk_canvas [SectionItem ex_S]
   \<and> getAllFields (items (cv_schema
        (handleReorderField ''a'' (Some ''ghost'') (Some 0) (mk_canvas [FieldItem ex_A, SectionItem ex_S])))) = []
   \<and> items (cv_schema (handleAddField short_text ''n'' (Some ''ghost'') (Some 0)
        (mk_canvas [FieldItem ex_A, SectionItem ex_S])))
       = [FieldItem ex_A, SectionItem ex_S]
   \<and> map item_id (items (cv_schema (handleMoveSectionDown ''ghost''
        (mk_canvas [FieldItem ex_A, FieldItem ex_B, SectionItem ex_S]))))
       = [''s'', ''a'', ''b'']"
  by (simp add: handleReorderField_def handleAddField_def handleMoveSectionDown_def move_item_def
      createDefaultField_def alloc_def
      mk_canvas_def mk_schema_def mk_section_def ex_A_def ex_B_def ex_S_def mk_field_def set_items_def
      insert_at_target_def is_section_with_id_def splice_insert_def splice_remove_def splice_start_def
      renumberItems_def Let_def)

end
